theory Spec2Isabelle
  imports Complex_Main
begin

section \<open>JavaScript values\<close>

text \<open>
  The results of \<^verbatim>\<open>JSON.parse\<close> are untyped at run time (\<^verbatim>\<open>parsed\<close> has type
  \<^verbatim>\<open>any\<close>), and the processor copies them into its records without any check. The
  fields of the records are therefore JavaScript values. A finite number is the real
  number the double stands for; \<open>JInfinity neg\<close> is the infinity that \<^verbatim>\<open>JSON.parse\<close> gives
  for a literal beyond the range of doubles such as \<^verbatim>\<open>1e999\<close>. It never yields NaN.
  The string inside a value is a list of \<^typ>\<open>char\<close>; an object is the list of its own
  properties, looked up by key.
\<close>

datatype jsval =
    JUndefined
  | JNull
  | JBool bool
  | JNum real
  | JInfinity bool
  | JStr string
  | JArr "jsval list"
  | JObj "(string \<times> jsval) list"

datatype js_error =
    Error string
  | TypeError
  | SyntaxError
  | APIError

definition bindE :: "js_error + 'a \<Rightarrow> ('a \<Rightarrow> js_error + 'b) \<Rightarrow> js_error + 'b" where
  "bindE m f = (case m of Inl e \<Rightarrow> Inl e | Inr x \<Rightarrow> f x)"

text \<open>
  \<^verbatim>\<open>v.k\<close>: reading a property of \<^verbatim>\<open>null\<close> or \<^verbatim>\<open>undefined\<close> throws a TypeError.
  The keys this program reads (\<^verbatim>\<open>recipientName\<close>, \<^verbatim>\<open>score\<close>, ...) are not
  properties of the prototypes of strings, numbers, booleans or arrays, so on those values
  the read gives \<^verbatim>\<open>undefined\<close>.
\<close>

fun get_prop :: "jsval \<Rightarrow> string \<Rightarrow> js_error + jsval" where
  "get_prop JUndefined k = Inl TypeError"
| "get_prop JNull k = Inl TypeError"
| "get_prop (JObj kvs) k = Inr (case map_of kvs k of None \<Rightarrow> JUndefined | Some v \<Rightarrow> v)"
| "get_prop v k = Inr JUndefined"

text \<open>\<^verbatim>\<open>!v\<close> is \<open>\<not> truthy v\<close>; \<^verbatim>\<open>a || b\<close> is \<open>js_or a b\<close>.\<close>

fun truthy :: "jsval \<Rightarrow> bool" where
  "truthy JUndefined = False"
| "truthy JNull = False"
| "truthy (JBool b) = b"
| "truthy (JNum x) = (x \<noteq> 0)"
| "truthy (JInfinity neg) = True"
| "truthy (JStr s) = (s \<noteq> [])"
| "truthy (JArr xs) = True"
| "truthy (JObj kvs) = True"

definition js_or :: "jsval \<Rightarrow> jsval \<Rightarrow> jsval" where
  "js_or a b = (if truthy a then a else b)"

fun typeof :: "jsval \<Rightarrow> string" where
  "typeof JUndefined = ''undefined''"
| "typeof JNull = ''object''"
| "typeof (JBool b) = ''boolean''"
| "typeof (JNum x) = ''number''"
| "typeof (JInfinity neg) = ''number''"
| "typeof (JStr s) = ''string''"
| "typeof (JArr xs) = ''object''"
| "typeof (JObj kvs) = ''object''"

section \<open>String operations\<close>

text \<open>
  \<^verbatim>\<open>xs.slice(b, e)\<close> on a string or an array: a negative index counts from the end,
  every index is clamped to the length, and an empty range gives the empty result.
  \<open>None\<close> is an omitted second argument.
\<close>

definition slice_index :: "nat \<Rightarrow> int \<Rightarrow> nat" where
  "slice_index n i = (if i < 0 then nat (max (int n + i) 0) else min (nat i) n)"

definition js_slice :: "'a list \<Rightarrow> int \<Rightarrow> int option \<Rightarrow> 'a list" where
  "js_slice xs b e =
     (let n = length xs;
          from = slice_index n b;
          to = (case e of None \<Rightarrow> n | Some j \<Rightarrow> slice_index n j)
      in take (to - from) (drop from xs))"

text \<open>\<^verbatim>\<open>s.replace(/[^0-9]/g, '')\<close> keeps the decimal digits of \<open>s\<close>.\<close>

definition is_digit :: "char \<Rightarrow> bool" where
  "is_digit c = (c \<in> set ''0123456789'')"

definition strip_non_digits :: "string \<Rightarrow> string" where
  "strip_non_digits s = filter is_digit s"

text \<open>
  The text of a gateway response is a JavaScript string: a list of UTF-16 code units.
  \<open>lit\<close> gives the code units of an ASCII literal.
\<close>

type_synonym code_unit = nat

definition lit :: "string \<Rightarrow> code_unit list" where
  "lit s = map of_char s"

text \<open>
  \<^verbatim>\<open>s.replace(/PAT\n?/g, '')\<close> for a literal pattern: scanning from the left, every
  occurrence of the pattern is removed together with a line feed that follows it; the scan
  goes on after the removed text.
\<close>

definition drop_newline :: "code_unit list \<Rightarrow> code_unit list" where
  "drop_newline s = (case s of [] \<Rightarrow> [] | c # cs \<Rightarrow> if c = 10 then cs else c # cs)"

function remove_fence :: "code_unit list \<Rightarrow> code_unit list \<Rightarrow> code_unit list" where
  "remove_fence pat [] = []"
| "remove_fence pat (c # cs) =
     (if pat \<noteq> [] \<and> take (length pat) (c # cs) = pat
      then remove_fence pat (drop_newline (drop (length pat) (c # cs)))
      else c # remove_fence pat cs)"
  by pat_completeness auto
termination
proof (relation "measure (\<lambda>(pat, s). length s)")
  show "wf (measure (\<lambda>(pat, s). length s))" by simp
next
  fix pat :: "code_unit list" and c :: code_unit and cs :: "code_unit list"
  assume "pat \<noteq> [] \<and> take (length pat) (c # cs) = pat"
  then have "0 < length pat" by simp
  then have "length (drop (length pat) (c # cs)) < length (c # cs)" by simp
  moreover have "length (drop_newline t) \<le> length t" for t
    by (simp add: drop_newline_def split: list.split)
  ultimately have "length (drop_newline (drop (length pat) (c # cs))) < length (c # cs)"
    by (meson le_less_trans)
  then show "((pat, drop_newline (drop (length pat) (c # cs))), (pat, c # cs))
      \<in> measure (\<lambda>(pat, s). length s)" by simp
next
  fix pat :: "code_unit list" and c :: code_unit and cs :: "code_unit list"
  show "((pat, cs), (pat, c # cs)) \<in> measure (\<lambda>(pat, s). length s)" by simp
qed

text \<open>
  \<^verbatim>\<open>s.trim()\<close> removes white space and line terminators from both ends: U+0009 to
  U+000D, U+0020, U+00A0, U+1680, U+2000 to U+200A, U+2028, U+2029, U+202F, U+205F, U+3000
  and U+FEFF.
\<close>

definition is_space :: "code_unit \<Rightarrow> bool" where
  "is_space c =
     ((9 \<le> c \<and> c \<le> 13) \<or> c = 32 \<or> c = 160 \<or> c = 5760 \<or> (8192 \<le> c \<and> c \<le> 8202)
      \<or> c = 8232 \<or> c = 8233 \<or> c = 8239 \<or> c = 8287 \<or> c = 12288 \<or> c = 65279)"

definition trim :: "code_unit list \<Rightarrow> code_unit list" where
  "trim s = rev (dropWhile is_space (rev (dropWhile is_space s)))"

text \<open>
  \<^verbatim>\<open>response.replace(/```json\n?/g, '').replace(/```\n?/g, '').trim()\<close>, the same in the
  extractor and in the risk scorer.
\<close>

definition cleanResponse :: "code_unit list \<Rightarrow> code_unit list" where
  "cleanResponse response =
     trim (remove_fence (lit ''```'') (remove_fence (lit ''```json'') response))"

section \<open>The clock\<close>

text \<open>
  \<^verbatim>\<open>new Date()\<close> reads the clock; the instant read is an input of the model, given by its
  UTC fields (month 1 to 12, day 1 to 31, ...). \<^verbatim>\<open>toISOString()\<close> prints
  \<^verbatim>\<open>YYYY-MM-DDTHH:mm:ss.sssZ\<close>, with a sign and six digits for a year outside 0 to 9999.
\<close>

record js_date =
  year :: int
  month :: nat
  day :: nat
  hours :: nat
  minutes :: nat
  seconds :: nat
  milliseconds :: nat

definition digit_char :: "nat \<Rightarrow> char" where
  "digit_char n = ''0123456789'' ! (n mod 10)"

fun pad :: "nat \<Rightarrow> nat \<Rightarrow> string" where
  "pad 0 n = []"
| "pad (Suc w) n = pad w (n div 10) @ [digit_char n]"

definition iso_year :: "int \<Rightarrow> string" where
  "iso_year y =
     (if 0 \<le> y \<and> y \<le> 9999 then pad 4 (nat y)
      else (if y < 0 then ''-'' else ''+'') @ pad 6 (nat \<bar>y\<bar>))"

definition iso_date :: "js_date \<Rightarrow> string" where
  "iso_date d = iso_year (year d) @ ''-'' @ pad 2 (month d) @ ''-'' @ pad 2 (day d)"

definition iso_time :: "js_date \<Rightarrow> string" where
  "iso_time d =
     pad 2 (hours d) @ '':'' @ pad 2 (minutes d) @ '':'' @ pad 2 (seconds d)
       @ ''.'' @ pad 3 (milliseconds d) @ ''Z''"

definition toISOString :: "js_date \<Rightarrow> string" where
  "toISOString d = iso_date d @ ''T'' @ iso_time d"

text \<open>\<^verbatim>\<open>s.split(c)[0]\<close>: the text before the first \<open>c\<close>, all of \<open>s\<close> when there is none.\<close>

definition split_first :: "char \<Rightarrow> string \<Rightarrow> string" where
  "split_first c s = takeWhile (\<lambda>x. x \<noteq> c) s"

section \<open>The inference gateway\<close>

text \<open>
  One call of \<^verbatim>\<open>openai.chat.completions.create\<close>. The answer of the service is an input
  of the model. The awaited call throws (\<open>Rejected\<close>); or it gives a value of which
  \<^verbatim>\<open>completion.choices[0]\<close> cannot be read, because there is no \<^verbatim>\<open>choices\<close> array
  (\<open>NoChoices\<close>: the read throws a TypeError); or the code reads
  \<^verbatim>\<open>choices[0]?.message?.content\<close>: a string, or \<open>None\<close> for \<^verbatim>\<open>null\<close> and
  \<^verbatim>\<open>undefined\<close> (also when \<^verbatim>\<open>choices\<close> is empty). \<^verbatim>\<open>JSON.parse\<close> is a parameter too:
  \<open>None\<close> is its SyntaxError.
\<close>

datatype completion = Rejected | NoChoices | Content "code_unit list option"

type_synonym json_parser = "code_unit list \<Rightarrow> jsval option"

section \<open>lib/ai-processor.ts\<close>

record PaymentIntent =
  recipientName :: jsval
  iban :: jsval
  amount :: jsval
  currency :: jsval
  reference :: jsval
  confidence :: jsval
  suggestedPaymentType :: jsval

record FraudFlags =
  riskLevel :: jsval
  flags :: jsval
  score :: jsval

record ProcessResult =
  intent :: PaymentIntent
  fraudAnalysis :: FraudFlags

text \<open>The object literal that the \<^verbatim>\<open>try\<close> block of \<^verbatim>\<open>extractPaymentIntent\<close> returns.\<close>

definition intent_of_parsed :: "jsval \<Rightarrow> js_error + PaymentIntent" where
  "intent_of_parsed parsed =
     bindE (get_prop parsed ''recipientName'') (\<lambda>v_recipientName.
     bindE (get_prop parsed ''iban'') (\<lambda>v_iban.
     bindE (get_prop parsed ''amount'') (\<lambda>v_amount.
     bindE (get_prop parsed ''currency'') (\<lambda>v_currency.
     bindE (get_prop parsed ''reference'') (\<lambda>v_reference.
     bindE (get_prop parsed ''confidence'') (\<lambda>v_confidence.
     bindE (get_prop parsed ''suggestedPaymentType'') (\<lambda>v_suggestedPaymentType.
       Inr \<lparr> recipientName = v_recipientName,
             iban = v_iban,
             amount = v_amount,
             currency = js_or v_currency (JStr ''EUR''),
             reference = v_reference,
             confidence = v_confidence,
             suggestedPaymentType = v_suggestedPaymentType \<rparr>)))))))"

definition extractPaymentIntent ::
  "json_parser \<Rightarrow> completion \<Rightarrow> string \<Rightarrow> js_error + PaymentIntent" where
  "extractPaymentIntent JSON_parse completion userInput =
     (case completion of
        Rejected \<Rightarrow> Inl APIError
      | NoChoices \<Rightarrow> Inl TypeError
      | Content None \<Rightarrow> Inl (Error ''No AI response received'')
      | Content (Some response) \<Rightarrow>
          if response = [] then Inl (Error ''No AI response received'')
          else (case (case JSON_parse (cleanResponse response) of
                        None \<Rightarrow> Inl SyntaxError
                      | Some parsed \<Rightarrow> intent_of_parsed parsed) of
                  Inl parseError \<Rightarrow> Inl (Error ''Invalid AI response format'')
                | Inr result \<Rightarrow> Inr result))"

text \<open>The object literal that the \<^verbatim>\<open>try\<close> block of \<^verbatim>\<open>analyzeFraudRisk\<close> returns.\<close>

definition flags_of_parsed :: "jsval \<Rightarrow> js_error + FraudFlags" where
  "flags_of_parsed parsed =
     bindE (get_prop parsed ''riskLevel'') (\<lambda>v_riskLevel.
     bindE (get_prop parsed ''flags'') (\<lambda>v_flags.
     bindE (get_prop parsed ''score'') (\<lambda>v_score.
       Inr \<lparr> riskLevel = v_riskLevel,
             flags = js_or v_flags (JArr []),
             score = js_or v_score (JNum 50) \<rparr>)))"

definition analyzeFraudRisk ::
  "json_parser \<Rightarrow> completion \<Rightarrow> string \<Rightarrow> PaymentIntent \<Rightarrow> js_error + FraudFlags" where
  "analyzeFraudRisk JSON_parse completion userInput intent_arg =
     (case completion of
        Rejected \<Rightarrow> Inl APIError
      | NoChoices \<Rightarrow> Inl TypeError
      | Content None \<Rightarrow>
          Inr \<lparr> riskLevel = JStr ''medium'', flags = JArr [JStr ''Analysis unavailable''],
                score = JNum 50 \<rparr>
      | Content (Some response) \<Rightarrow>
          if response = []
          then Inr \<lparr> riskLevel = JStr ''medium'', flags = JArr [JStr ''Analysis unavailable''],
                     score = JNum 50 \<rparr>
          else (case (case JSON_parse (cleanResponse response) of
                        None \<Rightarrow> Inl SyntaxError
                      | Some parsed \<Rightarrow> flags_of_parsed parsed) of
                  Inl parseError \<Rightarrow>
                    Inr \<lparr> riskLevel = JStr ''medium'', flags = JArr [JStr ''Analysis error''],
                          score = JNum 50 \<rparr>
                | Inr result \<Rightarrow> Inr result))"

text \<open>
  \<^verbatim>\<open>processPaymentIntent\<close>: the two steps inside one \<^verbatim>\<open>try\<close>; whatever is thrown
  there is replaced by one error. The first completion answers the extraction call, the
  second the scoring call.
\<close>

definition processPaymentIntent ::
  "json_parser \<Rightarrow> completion \<Rightarrow> completion \<Rightarrow> string \<Rightarrow> js_error + ProcessResult" where
  "processPaymentIntent JSON_parse completion1 completion2 userInput =
     (case bindE (extractPaymentIntent JSON_parse completion1 userInput) (\<lambda>intentResult.
           bindE (analyzeFraudRisk JSON_parse completion2 userInput intentResult) (\<lambda>v_fraudAnalysis.
             Inr \<lparr> intent = intentResult, fraudAnalysis = v_fraudAnalysis \<rparr>)) of
        Inl error \<Rightarrow> Inl (Error ''Failed to process payment intent'')
      | Inr result \<Rightarrow> Inr result)"

record SEPAPayment =
  sepa_paymentType :: string
  creditorName :: jsval
  creditorIBAN :: jsval
  sepa_amount :: jsval
  sepa_currency :: jsval
  remittanceInformation :: jsval
  executionDate :: string

definition formatSEPA :: "js_date \<Rightarrow> PaymentIntent \<Rightarrow> SEPAPayment" where
  "formatSEPA now i =
     \<lparr> sepa_paymentType = ''SEPA'',
       creditorName = recipientName i,
       creditorIBAN = iban i,
       sepa_amount = amount i,
       sepa_currency = js_or (currency i) (JStr ''EUR''),
       remittanceInformation = reference i,
       executionDate = split_first (CHR ''T'') (toISOString now) \<rparr>"

text \<open>
  \<^verbatim>\<open>v?.replace(/[^0-9]/g, '').slice(b, e)\<close> and \<^verbatim>\<open>v?.slice(b, e)\<close>: the optional chain
  gives \<^verbatim>\<open>undefined\<close> on \<^verbatim>\<open>null\<close> and \<^verbatim>\<open>undefined\<close>; on any other value the
  method is called, and calling what is not a function throws a TypeError. Only strings
  have \<^verbatim>\<open>replace\<close>; strings and arrays have \<^verbatim>\<open>slice\<close>.
\<close>

fun chain_replace_slice :: "jsval \<Rightarrow> int \<Rightarrow> int option \<Rightarrow> js_error + jsval" where
  "chain_replace_slice JUndefined b e = Inr JUndefined"
| "chain_replace_slice JNull b e = Inr JUndefined"
| "chain_replace_slice (JStr s) b e = Inr (JStr (js_slice (strip_non_digits s) b e))"
| "chain_replace_slice v b e = Inl TypeError"

fun chain_slice :: "jsval \<Rightarrow> int \<Rightarrow> int option \<Rightarrow> js_error + jsval" where
  "chain_slice JUndefined b e = Inr JUndefined"
| "chain_slice JNull b e = Inr JUndefined"
| "chain_slice (JStr s) b e = Inr (JStr (js_slice s b e))"
| "chain_slice (JArr xs) b e = Inr (JArr (js_slice xs b e))"
| "chain_slice v b e = Inl TypeError"

record FasterPaymentsPayment =
  fp_paymentType :: string
  payeeName :: jsval
  payeeAccountNumber :: jsval
  sortCode :: jsval
  fp_amount :: jsval
  fp_currency :: string
  fp_reference :: jsval
  paymentDateTime :: string

definition formatFasterPayments :: "js_date \<Rightarrow> PaymentIntent \<Rightarrow> js_error + FasterPaymentsPayment" where
  "formatFasterPayments now i =
     bindE (chain_replace_slice (iban i) (- 8) None) (\<lambda>v_payeeAccountNumber.
     bindE (chain_replace_slice (iban i) (- 14) (Some (- 8))) (\<lambda>v_sortCode.
     bindE (chain_slice (reference i) 0 (Some 18)) (\<lambda>v_reference.
       Inr \<lparr> fp_paymentType = ''FasterPayments'',
             payeeName = recipientName i,
             payeeAccountNumber = v_payeeAccountNumber,
             sortCode = v_sortCode,
             fp_amount = amount i,
             fp_currency = ''GBP'',
             fp_reference = v_reference,
             paymentDateTime = toISOString now \<rparr>)))"

section \<open>app/api/process-payment/route.ts\<close>

text \<open>
  \<^verbatim>\<open>formattedPayment\<close> starts as \<^verbatim>\<open>null\<close> (\<open>Unformatted\<close>) and is set by the branch that
  \<^verbatim>\<open>suggestedPaymentType\<close> selects (the handler's lines 20 to 25).
\<close>

datatype FormattedPayment =
    SEPA SEPAPayment
  | FasterPayments FasterPaymentsPayment
  | Unformatted

definition format_payment :: "js_date \<Rightarrow> PaymentIntent \<Rightarrow> js_error + FormattedPayment" where
  "format_payment now i =
     (if suggestedPaymentType i = JStr ''SEPA'' then Inr (SEPA (formatSEPA now i))
      else if suggestedPaymentType i = JStr ''FasterPayments''
      then bindE (formatFasterPayments now i) (\<lambda>p. Inr (FasterPayments p))
      else Inr Unformatted)"

record ProcessingResult =
  originalInput :: string
  parsedIntent :: PaymentIntent
  data_fraudAnalysis :: FraudFlags
  formattedPayment :: FormattedPayment
  processingTimestamp :: string

datatype response =
    ErrorResponse string nat
  | SuccessResponse ProcessingResult

text \<open>
  \<^verbatim>\<open>POST\<close>. \<open>body\<close> is what \<^verbatim>\<open>request.json()\<close> gives, \<open>None\<close> when it throws; the
  destructuring \<^verbatim>\<open>const { userInput } = ...\<close> reads the property. \<open>now1\<close> is the clock
  when the payment is formatted, \<open>now2\<close> when the response is built. Everything thrown
  inside the handler's \<^verbatim>\<open>try\<close> becomes the response with status 500.
\<close>

definition POST ::
  "json_parser \<Rightarrow> jsval option \<Rightarrow> completion \<Rightarrow> completion \<Rightarrow> js_date \<Rightarrow> js_date \<Rightarrow> response" where
  "POST JSON_parse body completion1 completion2 now1 now2 =
     (case (case body of
              None \<Rightarrow> Inl SyntaxError
            | Some b \<Rightarrow>
                bindE (get_prop b ''userInput'') (\<lambda>userInput.
                  if \<not> truthy userInput \<or> typeof userInput \<noteq> ''string''
                  then Inr (ErrorResponse ''Invalid payment instruction'' 400)
                  else (case userInput of
                          JStr u \<Rightarrow>
                            bindE (processPaymentIntent JSON_parse completion1 completion2 u) (\<lambda>result.
                            bindE (format_payment now1 (intent result)) (\<lambda>v_formattedPayment.
                              Inr (SuccessResponse
                                \<lparr> originalInput = u,
                                  parsedIntent = intent result,
                                  data_fraudAnalysis = fraudAnalysis result,
                                  formattedPayment = v_formattedPayment,
                                  processingTimestamp = toISOString now2 \<rparr>)))
                        | _ \<Rightarrow> Inl TypeError))) of
        Inl error \<Rightarrow> ErrorResponse ''Failed to process payment intent'' 500
      | Inr r \<Rightarrow> r)"

section \<open>Vocabulary of the properties\<close>

text \<open>
  The value a read \<^verbatim>\<open>v.k\<close> gives when it does not throw, and the values of which no
  property can be read.
\<close>

definition the_prop :: "jsval \<Rightarrow> string \<Rightarrow> jsval" where
  "the_prop v k = (case get_prop v k of Inl e \<Rightarrow> JUndefined | Inr x \<Rightarrow> x)"

definition unreadable :: "jsval \<Rightarrow> bool" where
  "unreadable v = (v = JNull \<or> v = JUndefined)"

text \<open>
  The \<^verbatim>\<open>try\<close> block of the extractor and of the scorer ends in its \<^verbatim>\<open>catch\<close> in two
  cases: \<^verbatim>\<open>JSON.parse\<close> throws on the stripped text, or gives \<^verbatim>\<open>null\<close>, of which no field
  can be read.
\<close>

definition json_parse_fails :: "json_parser \<Rightarrow> code_unit list \<Rightarrow> bool" where
  "json_parse_fails JSON_parse response =
     (case JSON_parse (cleanResponse response) of None \<Rightarrow> True | Some parsed \<Rightarrow> unreadable parsed)"

text \<open>
  A field declared optional in the data model: a value of the field's type, or absent
  (\<^verbatim>\<open>undefined\<close>; the prompt asks the gateway for \<^verbatim>\<open>null\<close>, which the optional chains
  treat alike).
\<close>

fun optional_string :: "jsval \<Rightarrow> bool" where
  "optional_string JUndefined = True"
| "optional_string JNull = True"
| "optional_string (JStr s) = True"
| "optional_string v = False"

fun optional_number :: "jsval \<Rightarrow> bool" where
  "optional_number JUndefined = True"
| "optional_number JNull = True"
| "optional_number (JNum x) = True"
| "optional_number v = False"

fun is_string_array :: "jsval \<Rightarrow> bool" where
  "is_string_array (JArr xs) = list_all (\<lambda>x. typeof x = ''string'') xs"
| "is_string_array v = False"

text \<open>
  The target schemas in the specification's words. A payment intent is a record with the
  optional strings \<^verbatim>\<open>recipientName\<close>, \<^verbatim>\<open>iban\<close>, \<^verbatim>\<open>currency\<close> and \<^verbatim>\<open>reference\<close>, an
  optional non-negative \<^verbatim>\<open>amount\<close>, a \<^verbatim>\<open>confidence\<close> between 0 and 1 and a
  \<^verbatim>\<open>suggestedPaymentType\<close> that is one of the three schemes. A scoring response is a
  record with a \<^verbatim>\<open>riskLevel\<close> that is one of the three levels, an optional \<^verbatim>\<open>score\<close>
  between 0 and 100 and an optional sequence of strings \<^verbatim>\<open>flags\<close>.
\<close>

definition spec_intent_schema :: "jsval \<Rightarrow> bool" where
  "spec_intent_schema p =
     (case p of
        JObj kvs \<Rightarrow>
          optional_string (the_prop p ''recipientName'')
          \<and> optional_string (the_prop p ''iban'')
          \<and> optional_string (the_prop p ''currency'')
          \<and> optional_string (the_prop p ''reference'')
          \<and> (case the_prop p ''amount'' of
                JNum x \<Rightarrow> 0 \<le> x | JUndefined \<Rightarrow> True | JNull \<Rightarrow> True | _ \<Rightarrow> False)
          \<and> (case the_prop p ''confidence'' of JNum x \<Rightarrow> 0 \<le> x \<and> x \<le> 1 | _ \<Rightarrow> False)
          \<and> the_prop p ''suggestedPaymentType''
                \<in> set [JStr ''SEPA'', JStr ''FasterPayments'', JStr ''Unknown'']
      | _ \<Rightarrow> False)"

definition spec_scoring_schema :: "jsval \<Rightarrow> bool" where
  "spec_scoring_schema p =
     (case p of
        JObj kvs \<Rightarrow>
          the_prop p ''riskLevel'' \<in> set [JStr ''low'', JStr ''medium'', JStr ''high'']
          \<and> (case the_prop p ''score'' of
                JNum x \<Rightarrow> 0 \<le> x \<and> x \<le> 100 | JUndefined \<Rightarrow> True | _ \<Rightarrow> False)
          \<and> (case the_prop p ''flags'' of
                JUndefined \<Rightarrow> True | v \<Rightarrow> is_string_array v)
      | _ \<Rightarrow> False)"

text \<open>
  A response text parses as a target schema when \<^verbatim>\<open>JSON.parse\<close> accepts the stripped
  text and the value conforms to the schema.
\<close>

definition spec_parses_as :: "(jsval \<Rightarrow> bool) \<Rightarrow> json_parser \<Rightarrow> code_unit list \<Rightarrow> bool" where
  "spec_parses_as schema JSON_parse response =
     (case JSON_parse (cleanResponse response) of None \<Rightarrow> False | Some parsed \<Rightarrow> schema parsed)"

text \<open>
  The failure condition of the extractor in the specification's words: the gateway returns
  empty content, or content that is not parseable as the target schema after the code
  fences are stripped.
\<close>

definition spec_extraction_failure :: "json_parser \<Rightarrow> completion \<Rightarrow> bool" where
  "spec_extraction_failure JSON_parse completion =
     (case completion of
        Rejected \<Rightarrow> False
      | NoChoices \<Rightarrow> False
      | Content None \<Rightarrow> True
      | Content (Some response) \<Rightarrow>
          response = [] \<or> \<not> spec_parses_as spec_intent_schema JSON_parse response)"

text \<open>
  The banding of the specification: a score below 30 is low, from 30 and below 70 medium,
  from 70 high. An assessment agrees with it when its risk level is the band of its score.
\<close>

definition spec_band :: "real \<Rightarrow> string" where
  "spec_band s = (if s < 30 then ''low'' else if s < 70 then ''medium'' else ''high'')"

definition spec_banding :: "FraudFlags \<Rightarrow> bool" where
  "spec_banding a =
     (case score a of
        JNum s \<Rightarrow> riskLevel a = JStr (spec_band s)
      | JInfinity neg \<Rightarrow> riskLevel a = JStr (if neg then ''low'' else ''high'')
      | _ \<Rightarrow> True)"

section \<open>Sample gateway responses\<close>

text \<open>
  Response texts of the examples, and what \<^verbatim>\<open>JSON.parse\<close> makes of each (\<open>None\<close>: it
  throws). The examples call the parser on these texts only. The texts are ASCII; a
  response is the list of code units \<open>lit text\<close>.
\<close>

definition john_text :: string where
  \<open>john_text = ''{"recipientName":"John","amount":50,"currency":"EUR","reference":"dinner","confidence":0.9,"suggestedPaymentType":"SEPA"}''\<close>

definition mary_text :: string where
  \<open>mary_text = ''{"recipientName":"Mary Smith","iban":"GB29NWBK60161331926819","amount":120,"reference":"rent payment for March apartment","confidence":0.8,"suggestedPaymentType":"FasterPayments"}''\<close>

definition cafe_text :: string where
  \<open>cafe_text = ''{"recipientName":null,"iban":null,"amount":75,"currency":"GBP","reference":"cafe receipt","confidence":0.4,"suggestedPaymentType":"Unknown"}''\<close>

definition mary_numeric_text :: string where
  \<open>mary_numeric_text = ''{"recipientName":"Mary Smith","iban":31926819,"amount":120,"reference":"rent","confidence":0.8,"suggestedPaymentType":"FasterPayments"}''\<close>

definition risk_low_10_text :: string where
  \<open>risk_low_10_text = ''{"riskLevel":"low","score":10,"flags":[]}''\<close>

definition risk_low_90_text :: string where
  \<open>risk_low_90_text = ''{"riskLevel":"low","score":90,"flags":[]}''\<close>

definition risk_low_0_text :: string where
  \<open>risk_low_0_text = ''{"riskLevel":"low","score":0,"flags":[]}''\<close>

definition john_parsed :: jsval where
  "john_parsed = JObj
     [(''recipientName'', JStr ''John''), (''amount'', JNum 50), (''currency'', JStr ''EUR''),
      (''reference'', JStr ''dinner''), (''confidence'', JNum (9 / 10)),
      (''suggestedPaymentType'', JStr ''SEPA'')]"

definition mary_parsed :: jsval where
  "mary_parsed = JObj
     [(''recipientName'', JStr ''Mary Smith''), (''iban'', JStr ''GB29NWBK60161331926819''),
      (''amount'', JNum 120), (''reference'', JStr ''rent payment for March apartment''),
      (''confidence'', JNum (8 / 10)), (''suggestedPaymentType'', JStr ''FasterPayments'')]"

definition mary_numeric_parsed :: jsval where
  "mary_numeric_parsed = JObj
     [(''recipientName'', JStr ''Mary Smith''), (''iban'', JNum 31926819),
      (''amount'', JNum 120), (''reference'', JStr ''rent''),
      (''confidence'', JNum (8 / 10)), (''suggestedPaymentType'', JStr ''FasterPayments'')]"

definition cafe_parsed :: jsval where
  "cafe_parsed = JObj
     [(''recipientName'', JNull), (''iban'', JNull), (''amount'', JNum 75),
      (''currency'', JStr ''GBP''), (''reference'', JStr ''cafe receipt''),
      (''confidence'', JNum (4 / 10)), (''suggestedPaymentType'', JStr ''Unknown'')]"

definition sample_table :: "(string \<times> jsval option) list" where
  "sample_table =
     [(john_text, Some john_parsed),
      (mary_text, Some mary_parsed),
      (mary_numeric_text, Some mary_numeric_parsed),
      (cafe_text, Some cafe_parsed),
      (risk_low_10_text,
         Some (JObj [(''riskLevel'', JStr ''low''), (''score'', JNum 10), (''flags'', JArr [])])),
      (risk_low_90_text,
         Some (JObj [(''riskLevel'', JStr ''low''), (''score'', JNum 90), (''flags'', JArr [])])),
      (risk_low_0_text,
         Some (JObj [(''riskLevel'', JStr ''low''), (''score'', JNum 0), (''flags'', JArr [])])),
      (''null'', Some JNull),
      (''5'', Some (JNum 5)),
      (''not json'', None)]"

definition sample_JSON_parse :: json_parser where
  "sample_JSON_parse text =
     (case map_of (map (\<lambda>(k, v). (lit k, v)) sample_table) text of
        None \<Rightarrow> None
      | Some v \<Rightarrow> v)"

definition john_intent :: PaymentIntent where
  "john_intent =
     \<lparr> recipientName = JStr ''John'', iban = JUndefined, amount = JNum 50,
       currency = JStr ''EUR'', reference = JStr ''dinner'', confidence = JNum (9 / 10),
       suggestedPaymentType = JStr ''SEPA'' \<rparr>"

definition mary_intent :: PaymentIntent where
  "mary_intent =
     \<lparr> recipientName = JStr ''Mary Smith'', iban = JStr ''GB29NWBK60161331926819'',
       amount = JNum 120, currency = JStr ''EUR'',
       reference = JStr ''rent payment for March apartment'', confidence = JNum (8 / 10),
       suggestedPaymentType = JStr ''FasterPayments'' \<rparr>"

definition mary_numeric_intent :: PaymentIntent where
  "mary_numeric_intent =
     \<lparr> recipientName = JStr ''Mary Smith'', iban = JNum 31926819, amount = JNum 120,
       currency = JStr ''EUR'', reference = JStr ''rent'', confidence = JNum (8 / 10),
       suggestedPaymentType = JStr ''FasterPayments'' \<rparr>"

definition cafe_intent :: PaymentIntent where
  "cafe_intent =
     \<lparr> recipientName = JNull, iban = JNull, amount = JNum 75, currency = JStr ''GBP'',
       reference = JStr ''cafe receipt'', confidence = JNum (4 / 10),
       suggestedPaymentType = JStr ''Unknown'' \<rparr>"

definition sample_now :: js_date where
  "sample_now =
     \<lparr> year = 2026, month = 11, day = 1, hours = 9, minutes = 5, seconds = 7,
       milliseconds = 42 \<rparr>"

section \<open>Auxiliary facts\<close>

lemma bindE_Inl [simp]: "bindE (Inl e) f = Inl e"
  by (simp add: bindE_def)

lemma bindE_Inr [simp]: "bindE (Inr x) f = f x"
  by (simp add: bindE_def)

lemma get_prop_unreadable: "unreadable p \<Longrightarrow> get_prop p k = Inl TypeError"
  by (auto simp: unreadable_def)

lemma get_prop_readable: "\<not> unreadable p \<Longrightarrow> get_prop p k = Inr (the_prop p k)"
  by (cases p) (simp_all add: unreadable_def the_prop_def)

lemma flags_of_parsed_unreadable: "unreadable p \<Longrightarrow> flags_of_parsed p = Inl TypeError"
  by (simp add: flags_of_parsed_def get_prop_unreadable)

lemma flags_of_parsed_readable:
  "\<not> unreadable p \<Longrightarrow>
   flags_of_parsed p =
     Inr \<lparr> riskLevel = the_prop p ''riskLevel'',
           flags = js_or (the_prop p ''flags'') (JArr []),
           score = js_or (the_prop p ''score'') (JNum 50) \<rparr>"
  by (simp add: flags_of_parsed_def get_prop_readable)

lemma intent_of_parsed_unreadable: "unreadable p \<Longrightarrow> intent_of_parsed p = Inl TypeError"
  by (simp add: intent_of_parsed_def get_prop_unreadable)

lemma intent_of_parsed_readable:
  "\<not> unreadable p \<Longrightarrow>
   intent_of_parsed p =
     Inr \<lparr> recipientName = the_prop p ''recipientName'',
           iban = the_prop p ''iban'',
           amount = the_prop p ''amount'',
           currency = js_or (the_prop p ''currency'') (JStr ''EUR''),
           reference = the_prop p ''reference'',
           confidence = the_prop p ''confidence'',
           suggestedPaymentType = the_prop p ''suggestedPaymentType'' \<rparr>"
  by (simp add: intent_of_parsed_def get_prop_readable)

lemma analyze_no_content:
  "c = None \<or> c = Some [] \<Longrightarrow>
   analyzeFraudRisk P (Content c) u i =
     Inr \<lparr> riskLevel = JStr ''medium'', flags = JArr [JStr ''Analysis unavailable''],
           score = JNum 50 \<rparr>"
  by (auto simp: analyzeFraudRisk_def)

lemma analyze_json_parse_fails:
  "r \<noteq> [] \<Longrightarrow> json_parse_fails P r \<Longrightarrow>
   analyzeFraudRisk P (Content (Some r)) u i =
     Inr \<lparr> riskLevel = JStr ''medium'', flags = JArr [JStr ''Analysis error''],
           score = JNum 50 \<rparr>"
  by (auto simp: analyzeFraudRisk_def json_parse_fails_def flags_of_parsed_unreadable
           split: option.splits)

lemma analyze_parsed:
  "r \<noteq> [] \<Longrightarrow> P (cleanResponse r) = Some p \<Longrightarrow> \<not> unreadable p \<Longrightarrow>
   analyzeFraudRisk P (Content (Some r)) u i =
     Inr \<lparr> riskLevel = the_prop p ''riskLevel'',
           flags = js_or (the_prop p ''flags'') (JArr []),
           score = js_or (the_prop p ''score'') (JNum 50) \<rparr>"
  by (simp add: analyzeFraudRisk_def flags_of_parsed_readable)

lemma analyze_returns: "\<exists>a. analyzeFraudRisk P (Content c) u i = Inr a"
  by (auto simp: analyzeFraudRisk_def split: option.splits sum.splits)

lemma extract_rejected: "extractPaymentIntent P Rejected u = Inl APIError"
  by (simp add: extractPaymentIntent_def)

lemma extract_no_content:
  "c = None \<or> c = Some [] \<Longrightarrow>
   extractPaymentIntent P (Content c) u = Inl (Error ''No AI response received'')"
  by (auto simp: extractPaymentIntent_def)

lemma extract_json_parse_fails:
  "r \<noteq> [] \<Longrightarrow> json_parse_fails P r \<Longrightarrow>
   extractPaymentIntent P (Content (Some r)) u = Inl (Error ''Invalid AI response format'')"
  by (auto simp: extractPaymentIntent_def json_parse_fails_def intent_of_parsed_unreadable
           split: option.splits)

lemma extract_parsed:
  "r \<noteq> [] \<Longrightarrow> P (cleanResponse r) = Some p \<Longrightarrow> \<not> unreadable p \<Longrightarrow>
   extractPaymentIntent P (Content (Some r)) u =
     Inr \<lparr> recipientName = the_prop p ''recipientName'',
           iban = the_prop p ''iban'',
           amount = the_prop p ''amount'',
           currency = js_or (the_prop p ''currency'') (JStr ''EUR''),
           reference = the_prop p ''reference'',
           confidence = the_prop p ''confidence'',
           suggestedPaymentType = the_prop p ''suggestedPaymentType'' \<rparr>"
  by (simp add: extractPaymentIntent_def intent_of_parsed_readable)

lemma extract_no_choices: "extractPaymentIntent P NoChoices u = Inl TypeError"
  by (simp add: extractPaymentIntent_def)

lemma extract_content_fails_iff:
  "isl (extractPaymentIntent P (Content c) u) \<longleftrightarrow>
     c = None \<or> (\<exists>r. c = Some r \<and> (r = [] \<or> json_parse_fails P r))"
proof (cases c)
  case None
  then show ?thesis by (simp add: extract_no_content)
next
  case (Some r)
  show ?thesis
  proof (cases "r = []")
    case True
    with Some show ?thesis by (simp add: extract_no_content)
  next
    case False
    show ?thesis
    proof (cases "json_parse_fails P r")
      case True
      with Some False show ?thesis by (simp add: extract_json_parse_fails)
    next
      case unp: False
      then obtain p where "P (cleanResponse r) = Some p" "\<not> unreadable p"
        by (auto simp: json_parse_fails_def split: option.splits)
      with Some False unp show ?thesis by (simp add: extract_parsed)
    qed
  qed
qed

lemma extract_fails_iff:
  "isl (extractPaymentIntent P g u) \<longleftrightarrow>
     g = Rejected \<or> g = NoChoices
     \<or> (\<exists>c. g = Content c \<and> (c = None \<or> (\<exists>r. c = Some r \<and> (r = [] \<or> json_parse_fails P r))))"
  by (cases g) (simp_all add: extract_rejected extract_no_choices extract_content_fails_iff)

lemma process_extraction_failed:
  "extractPaymentIntent P g1 u = Inl e \<Longrightarrow>
   processPaymentIntent P g1 g2 u = Inl (Error ''Failed to process payment intent'')"
  by (simp add: processPaymentIntent_def)

lemma process_scoring_rejected:
  "g2 = Rejected \<or> g2 = NoChoices \<Longrightarrow>
   processPaymentIntent P g1 g2 u = Inl (Error ''Failed to process payment intent'')"
  by (cases "extractPaymentIntent P g1 u")
     (auto simp: processPaymentIntent_def analyzeFraudRisk_def)

lemma process_scoring_returned:
  "extractPaymentIntent P g1 u = Inr it \<Longrightarrow> analyzeFraudRisk P g2 u it = Inr fa \<Longrightarrow>
   processPaymentIntent P g1 g2 u = Inr \<lparr> intent = it, fraudAnalysis = fa \<rparr>"
  by (simp add: processPaymentIntent_def)

text \<open>Literals, the sample table and the stripping of the sample texts.\<close>

lemma lit_eq_iff: "lit a = lit b \<longleftrightarrow> a = b"
  unfolding lit_def by (simp add: inj_map_eq_map inj_on_def)

lemma map_of_lit: "map_of (map (\<lambda>(k, v). (lit k, v)) t) (lit s) = map_of t s"
  by (induction t) (auto simp: lit_eq_iff)

lemma sample_parse_lit:
  "sample_JSON_parse (lit s) = (case map_of sample_table s of None \<Rightarrow> None | Some v \<Rightarrow> v)"
  by (simp add: sample_JSON_parse_def map_of_lit)

lemmas sample_texts =
  john_text_def mary_text_def mary_numeric_text_def cafe_text_def risk_low_10_text_def
  risk_low_90_text_def risk_low_0_text_def

text \<open>
  What the stripping does: text without a backtick passes the two replacements unchanged, a
  fence is removed with the line feed after it, and \<^verbatim>\<open>trim\<close> removes the white space
  around a text that begins and ends with other characters.
\<close>

lemma remove_fence_append:
  "pat \<noteq> [] \<Longrightarrow> hd pat \<notin> set a \<Longrightarrow> remove_fence pat (a @ b) = a @ remove_fence pat b"
proof (induction a)
  case Nil
  show ?case by simp
next
  case (Cons c cs)
  have "take (length pat) (c # cs @ b) \<noteq> pat"
  proof
    assume "take (length pat) (c # cs @ b) = pat"
    then have "hd (take (length pat) (c # cs @ b)) = hd pat" by simp
    moreover have "0 < length pat" using Cons.prems(1) by simp
    ultimately have "c = hd pat" by (cases "length pat") simp_all
    with Cons.prems(2) show False by simp
  qed
  with Cons show ?case by simp
qed

lemma remove_fence_no_tick:
  "pat \<noteq> [] \<Longrightarrow> hd pat \<notin> set s \<Longrightarrow> remove_fence pat s = s"
  using remove_fence_append [of pat s "[]"] by simp

lemma remove_fence_match:
  "pat \<noteq> [] \<Longrightarrow> remove_fence pat (pat @ b) = remove_fence pat (drop_newline b)"
  by (cases pat) simp_all

lemma trim_surrounded:
  assumes ne: "s \<noteq> []" and h: "\<not> is_space (hd s)" and l: "\<not> is_space (last s)"
    and v: "\<forall>x \<in> set v. is_space x" and w: "\<forall>x \<in> set w. is_space x"
  shows "trim (v @ s @ w) = s"
proof -
  have "dropWhile is_space (v @ s @ w) = dropWhile is_space (s @ w)"
    using v by simp
  also have "\<dots> = s @ w"
    using ne h by (cases s) simp_all
  finally have 1: "dropWhile is_space (v @ s @ w) = s @ w" .
  have "dropWhile is_space (rev w @ rev s) = dropWhile is_space (rev s)"
    by (rule dropWhile_append2) (use w in auto)
  then have "dropWhile is_space (rev (s @ w)) = dropWhile is_space (rev s)"
    by simp
  also have "\<dots> = rev s"
    using ne l by (simp add: dropWhile_eq_self_iff hd_rev)
  finally have 2: "dropWhile is_space (rev (s @ w)) = rev s" .
  show ?thesis
    by (simp only: trim_def 1 2 rev_rev_ident)
qed

lemma trim_id: "s \<noteq> [] \<Longrightarrow> \<not> is_space (hd s) \<Longrightarrow> \<not> is_space (last s) \<Longrightarrow> trim s = s"
  using trim_surrounded [of s "[]" "[]"] by simp

lemma clean_plain:
  assumes t: "96 \<notin> set s" and ne: "s \<noteq> []"
    and h: "\<not> is_space (hd s)" and l: "\<not> is_space (last s)"
    and v: "\<forall>x \<in> set v. is_space x" and w: "\<forall>x \<in> set w. is_space x"
  shows "cleanResponse (v @ s @ w) = s"
proof -
  have "96 \<notin> set (v @ s @ w)"
    using t v w by (auto simp: is_space_def)
  then have "remove_fence (lit ''```'') (remove_fence (lit ''```json'') (v @ s @ w)) = v @ s @ w"
    by (simp add: remove_fence_no_tick lit_def)
  then show ?thesis
    by (simp only: cleanResponse_def trim_surrounded [OF ne h l v w])
qed

lemma clean_fenced:
  assumes t: "96 \<notin> set s" and ne: "s \<noteq> []"
    and h: "\<not> is_space (hd s)" and l: "\<not> is_space (last s)"
  shows "cleanResponse (lit ''```json'' @ [10] @ s @ [10] @ lit ''```'') = s"
proof -
  have j: "lit ''```json'' \<noteq> []" "hd (lit ''```json'') = 96"
    and k: "lit ''```'' \<noteq> []" "hd (lit ''```'') = 96"
    by (simp_all add: lit_def)
  have "remove_fence (lit ''```json'') (lit ''```json'' @ [10] @ s @ [10] @ lit ''```'')
      = remove_fence (lit ''```json'') (s @ [10] @ lit ''```'')"
    by (simp add: remove_fence_match [OF j(1)] drop_newline_def)
  also have "\<dots> = s @ remove_fence (lit ''```json'') ([10] @ lit ''```'')"
    using t by (simp add: remove_fence_append j)
  also have "remove_fence (lit ''```json'') ([10] @ lit ''```'') = [10] @ lit ''```''"
    by (simp add: lit_def)
  finally have 1: "remove_fence (lit ''```json'') (lit ''```json'' @ [10] @ s @ [10] @ lit ''```'')
      = (s @ [10]) @ lit ''```''" by simp
  have "96 \<notin> set (s @ [10])" using t by simp
  then have "remove_fence (lit ''```'') ((s @ [10]) @ lit ''```'')
      = (s @ [10]) @ remove_fence (lit ''```'') (lit ''```'')"
    by (simp only: remove_fence_append [OF k(1)] k(2) not_False_eq_True)
  also have "remove_fence (lit ''```'') (lit ''```'') = []"
    by (simp add: lit_def drop_newline_def)
  finally have 2: "remove_fence (lit ''```'') ((s @ [10]) @ lit ''```'') = [] @ s @ [10]"
    by simp
  have w: "\<forall>x \<in> set [10]. is_space x" by (simp add: is_space_def)
  show ?thesis
    by (simp only: cleanResponse_def 1 2) (rule trim_surrounded [OF ne h l _ w], simp)
qed

lemma lit_john_shape:
  "96 \<notin> set (lit john_text)" "lit john_text \<noteq> []"
  "\<not> is_space (hd (lit john_text))" "\<not> is_space (last (lit john_text))"
  by (simp_all add: lit_def john_text_def is_space_def)

lemma clean_john: "cleanResponse (lit john_text) = lit john_text"
  using clean_plain [of "lit john_text" "[]" "[]"] lit_john_shape by simp

lemma clean_fenced_john:
  "cleanResponse (lit ''```json'' @ [10] @ lit john_text @ [10] @ lit ''```'') = lit john_text"
  using lit_john_shape by (rule clean_fenced)

lemma clean_nbsp_john: "cleanResponse ([160] @ lit john_text @ [65279, 8232]) = lit john_text"
  using lit_john_shape by (rule clean_plain) (simp_all add: is_space_def)

lemma clean_sample:
  "cleanResponse (lit mary_numeric_text) = lit mary_numeric_text"
  "cleanResponse (lit risk_low_0_text) = lit risk_low_0_text"
  "cleanResponse (lit risk_low_90_text) = lit risk_low_90_text"
  "cleanResponse (lit ''not json'') = lit ''not json''"
  "cleanResponse (lit ''5'') = lit ''5''"
proof -
  have c: "96 \<notin> set s \<Longrightarrow> s \<noteq> [] \<Longrightarrow> \<not> is_space (hd s) \<Longrightarrow> \<not> is_space (last s)
      \<Longrightarrow> cleanResponse s = s" for s
    using clean_plain [of s "[]" "[]"] by simp
  show "cleanResponse (lit mary_numeric_text) = lit mary_numeric_text"
    by (rule c) (simp_all add: lit_def mary_numeric_text_def is_space_def)
  show "cleanResponse (lit risk_low_0_text) = lit risk_low_0_text"
    by (rule c) (simp_all add: lit_def risk_low_0_text_def is_space_def)
  show "cleanResponse (lit risk_low_90_text) = lit risk_low_90_text"
    by (rule c) (simp_all add: lit_def risk_low_90_text_def is_space_def)
  show "cleanResponse (lit ''not json'') = lit ''not json''"
    by (rule c) (simp_all add: lit_def is_space_def)
  show "cleanResponse (lit ''5'') = lit ''5''"
    by (rule c) (simp_all add: lit_def is_space_def)
qed

lemma parse_john: "sample_JSON_parse (lit john_text) = Some john_parsed"
  by (simp add: sample_parse_lit sample_table_def)

lemma parse_mary_numeric: "sample_JSON_parse (lit mary_numeric_text) = Some mary_numeric_parsed"
  by (simp add: sample_parse_lit sample_table_def sample_texts)

lemma parse_risk_low_0:
  "sample_JSON_parse (lit risk_low_0_text) =
     Some (JObj [(''riskLevel'', JStr ''low''), (''score'', JNum 0), (''flags'', JArr [])])"
  by (simp add: sample_parse_lit sample_table_def sample_texts)

lemma parse_risk_low_90:
  "sample_JSON_parse (lit risk_low_90_text) =
     Some (JObj [(''riskLevel'', JStr ''low''), (''score'', JNum 90), (''flags'', JArr [])])"
  by (simp add: sample_parse_lit sample_table_def sample_texts)

lemma parse_not_json: "sample_JSON_parse (lit ''not json'') = None"
  by (simp add: sample_parse_lit sample_table_def sample_texts)

lemma parse_five: "sample_JSON_parse (lit ''5'') = Some (JNum 5)"
  by (simp add: sample_parse_lit sample_table_def sample_texts)

lemma lit_nonempty: "s \<noteq> [] \<Longrightarrow> lit s \<noteq> []"
  by (simp add: lit_def)

lemma john_intent_of_parsed:
  "\<lparr> recipientName = the_prop john_parsed ''recipientName'',
     iban = the_prop john_parsed ''iban'',
     amount = the_prop john_parsed ''amount'',
     currency = js_or (the_prop john_parsed ''currency'') (JStr ''EUR''),
     reference = the_prop john_parsed ''reference'',
     confidence = the_prop john_parsed ''confidence'',
     suggestedPaymentType = the_prop john_parsed ''suggestedPaymentType'' \<rparr> = john_intent"
  by (simp add: the_prop_def john_parsed_def john_intent_def js_or_def)

lemma extract_john_from:
  "r \<noteq> [] \<Longrightarrow> cleanResponse r = lit john_text \<Longrightarrow>
   extractPaymentIntent sample_JSON_parse (Content (Some r)) u = Inr john_intent"
proof -
  assume ne: "r \<noteq> []" and cl: "cleanResponse r = lit john_text"
  have rd: "\<not> unreadable john_parsed" by (simp add: unreadable_def john_parsed_def)
  have p: "sample_JSON_parse (cleanResponse r) = Some john_parsed"
    by (simp only: cl parse_john)
  show ?thesis
    unfolding extract_parsed [where P = sample_JSON_parse, OF ne p rd]
    by (simp only: john_intent_of_parsed)
qed

lemma extract_john:
  "extractPaymentIntent sample_JSON_parse (Content (Some (lit john_text))) u = Inr john_intent"
  by (rule extract_john_from) (simp_all add: clean_john lit_john_shape)

lemma extract_fenced_john:
  "extractPaymentIntent sample_JSON_parse
     (Content (Some (lit ''```json'' @ [10] @ lit john_text @ [10] @ lit ''```''))) u =
   Inr john_intent"
proof (rule extract_john_from)
  show "lit ''```json'' @ [10] @ lit john_text @ [10] @ lit ''```'' \<noteq> []"
    by (simp add: lit_def)
  show "cleanResponse (lit ''```json'' @ [10] @ lit john_text @ [10] @ lit ''```'') = lit john_text"
    by (rule clean_fenced_john)
qed

lemma extract_nbsp_john:
  "extractPaymentIntent sample_JSON_parse
     (Content (Some ([160] @ lit john_text @ [65279, 8232]))) u = Inr john_intent"
proof (rule extract_john_from)
  show "[160] @ lit john_text @ [65279, 8232] \<noteq> []" by simp
  show "cleanResponse ([160] @ lit john_text @ [65279, 8232]) = lit john_text"
    by (rule clean_nbsp_john)
qed

section \<open>The risk scorer\<close>

lemma analyze_five:
  "analyzeFraudRisk sample_JSON_parse (Content (Some (lit ''5''))) u i =
     Inr \<lparr> riskLevel = JUndefined, flags = JArr [], score = JNum 50 \<rparr>"
proof -
  have ne: "lit ''5'' \<noteq> []" by (simp add: lit_def)
  have p: "sample_JSON_parse (cleanResponse (lit ''5'')) = Some (JNum 5)"
    by (simp only: clean_sample parse_five)
  have rd: "\<not> unreadable (JNum 5)" by (simp add: unreadable_def)
  show ?thesis
    unfolding analyze_parsed [where P = sample_JSON_parse, OF ne p rd]
    by (simp add: the_prop_def js_or_def)
qed

lemma analyze_risk_low_90:
  "analyzeFraudRisk sample_JSON_parse (Content (Some (lit risk_low_90_text))) u i =
     Inr \<lparr> riskLevel = JStr ''low'', flags = JArr [], score = JNum 90 \<rparr>"
proof -
  have ne: "lit risk_low_90_text \<noteq> []" by (simp add: lit_def risk_low_90_text_def)
  have p: "sample_JSON_parse (cleanResponse (lit risk_low_90_text)) =
      Some (JObj [(''riskLevel'', JStr ''low''), (''score'', JNum 90), (''flags'', JArr [])])"
    by (simp only: clean_sample parse_risk_low_90)
  have rd: "\<not> unreadable (JObj [(''riskLevel'', JStr ''low''), (''score'', JNum 90), (''flags'', JArr [])])"
    by (simp add: unreadable_def)
  show ?thesis
    unfolding analyze_parsed [where P = sample_JSON_parse, OF ne p rd]
    by (simp add: the_prop_def js_or_def)
qed

text \<open>
  Claim C4 says that content which fails to parse as the target schema gives the
  "Analysis error" fallback. The scorer checks no schema: the content \<^verbatim>\<open>5\<close> is JSON and
  not a scoring record, and the scorer returns an assessment with the risk level
  \<^verbatim>\<open>undefined\<close>, no flags and the score 50, not the fallback.
\<close>

theorem assess_unchecked_schema_counterexample:
  "\<not> spec_parses_as spec_scoring_schema sample_JSON_parse (lit ''5'')
   \<and> analyzeFraudRisk sample_JSON_parse (Content (Some (lit ''5''))) ''Pay John'' john_intent =
       Inr \<lparr> riskLevel = JUndefined, flags = JArr [], score = JNum 50 \<rparr>"
  by (simp add: analyze_five spec_parses_as_def clean_sample parse_five spec_scoring_schema_def)

text \<open>
  Claim C4, amended. When the gateway returns no content (\<^verbatim>\<open>null\<close>, \<^verbatim>\<open>undefined\<close> or
  the empty string), \<^verbatim>\<open>analyzeFraudRisk\<close> returns exactly medium, 50 and the one flag
  "Analysis unavailable". When \<^verbatim>\<open>JSON.parse\<close> throws on the stripped content, or gives
  \<^verbatim>\<open>null\<close>, it returns exactly medium, 50 and the one flag "Analysis error". Content that
  parses to any other value is not checked against the target schema and no fallback is
  substituted: the assessment carries the response's \<^verbatim>\<open>riskLevel\<close> as it is
  (\<^verbatim>\<open>undefined\<close> when missing) and its \<^verbatim>\<open>flags\<close> (empty when missing).
\<close>

theorem assess_fallback_amended:
  "(c = None \<or> c = Some [] \<longrightarrow>
      analyzeFraudRisk P (Content c) u i =
        Inr \<lparr> riskLevel = JStr ''medium'', flags = JArr [JStr ''Analysis unavailable''],
              score = JNum 50 \<rparr>)
   \<and> (r \<noteq> [] \<and> (P (cleanResponse r) = None \<or> P (cleanResponse r) = Some JNull) \<longrightarrow>
      analyzeFraudRisk P (Content (Some r)) u i =
        Inr \<lparr> riskLevel = JStr ''medium'', flags = JArr [JStr ''Analysis error''],
              score = JNum 50 \<rparr>)
   \<and> (r \<noteq> [] \<and> P (cleanResponse r) = Some p \<and> \<not> unreadable p \<longrightarrow>
      (\<exists>a. analyzeFraudRisk P (Content (Some r)) u i = Inr a
           \<and> riskLevel a = the_prop p ''riskLevel''
           \<and> flags a = js_or (the_prop p ''flags'') (JArr [])))"
proof (intro conjI impI)
  assume "c = None \<or> c = Some []"
  then show "analyzeFraudRisk P (Content c) u i =
        Inr \<lparr> riskLevel = JStr ''medium'', flags = JArr [JStr ''Analysis unavailable''],
              score = JNum 50 \<rparr>"
    by (rule analyze_no_content)
next
  assume a: "r \<noteq> [] \<and> (P (cleanResponse r) = None \<or> P (cleanResponse r) = Some JNull)"
  then have "json_parse_fails P r"
    by (auto simp: json_parse_fails_def unreadable_def)
  with a show "analyzeFraudRisk P (Content (Some r)) u i =
        Inr \<lparr> riskLevel = JStr ''medium'', flags = JArr [JStr ''Analysis error''],
              score = JNum 50 \<rparr>"
    by (simp add: analyze_json_parse_fails)
next
  assume "r \<noteq> [] \<and> P (cleanResponse r) = Some p \<and> \<not> unreadable p"
  then have ne: "r \<noteq> []" and p: "P (cleanResponse r) = Some p" and rd: "\<not> unreadable p"
    by simp_all
  show "\<exists>a. analyzeFraudRisk P (Content (Some r)) u i = Inr a
           \<and> riskLevel a = the_prop p ''riskLevel''
           \<and> flags a = js_or (the_prop p ''flags'') (JArr [])"
    unfolding analyze_parsed [where P = P, OF ne p rd]
    by simp
qed

theorem assess_fallback_amended_witness:
  "analyzeFraudRisk sample_JSON_parse (Content None) ''Pay John'' john_intent =
     Inr \<lparr> riskLevel = JStr ''medium'', flags = JArr [JStr ''Analysis unavailable''],
           score = JNum 50 \<rparr>
   \<and> analyzeFraudRisk sample_JSON_parse (Content (Some (lit ''not json''))) ''Pay John'' john_intent =
     Inr \<lparr> riskLevel = JStr ''medium'', flags = JArr [JStr ''Analysis error''],
           score = JNum 50 \<rparr>
   \<and> (\<exists>a. analyzeFraudRisk sample_JSON_parse (Content (Some (lit ''5''))) ''Pay John'' john_intent = Inr a
        \<and> riskLevel a = JUndefined \<and> flags a = JArr [])"
proof -
  have ne: "lit ''not json'' \<noteq> []" "lit ''5'' \<noteq> []" by (simp_all add: lit_def)
  have f: "sample_JSON_parse (cleanResponse (lit ''not json'')) = None"
    by (simp only: clean_sample parse_not_json)
  have p: "sample_JSON_parse (cleanResponse (lit ''5'')) = Some (JNum 5)"
    by (simp only: clean_sample parse_five)
  have rd: "\<not> unreadable (JNum 5)" by (simp add: unreadable_def)
  have v: "the_prop (JNum 5) ''riskLevel'' = JUndefined"
    "js_or (the_prop (JNum 5) ''flags'') (JArr []) = JArr []"
    by (simp_all add: the_prop_def js_or_def)
  note t1 = assess_fallback_amended
    [of None sample_JSON_parse "''Pay John''" john_intent "lit ''not json''" "JNull"]
  note t2 = assess_fallback_amended
    [of None sample_JSON_parse "''Pay John''" john_intent "lit ''5''" "JNum 5"]
  have a: "analyzeFraudRisk sample_JSON_parse (Content None) ''Pay John'' john_intent =
     Inr \<lparr> riskLevel = JStr ''medium'', flags = JArr [JStr ''Analysis unavailable''],
           score = JNum 50 \<rparr>"
    using t1 by blast
  have b: "analyzeFraudRisk sample_JSON_parse (Content (Some (lit ''not json''))) ''Pay John'' john_intent =
     Inr \<lparr> riskLevel = JStr ''medium'', flags = JArr [JStr ''Analysis error''],
           score = JNum 50 \<rparr>"
    using t1 ne(1) f by blast
  have c: "\<exists>a. analyzeFraudRisk sample_JSON_parse (Content (Some (lit ''5''))) ''Pay John'' john_intent = Inr a
        \<and> riskLevel a = JUndefined \<and> flags a = JArr []"
    using t2 ne(2) p rd unfolding v by blast
  from a b c show ?thesis by (intro conjI)
qed

text \<open>
  Claim C3. A numeric score of the response is to be returned as it is, 50 standing in
  only for an absent score. The code writes \<^verbatim>\<open>parsed.score || 50\<close>, and 0 is falsy: on
  the response \<^verbatim>\<open>{"riskLevel":"low","score":0,"flags":[]}\<close> the assessment returned has
  the score 50, not 0.
\<close>

theorem assess_score_zero_replaced:
  "analyzeFraudRisk sample_JSON_parse (Content (Some (lit risk_low_0_text))) ''Pay John'' john_intent =
     Inr \<lparr> riskLevel = JStr ''low'', flags = JArr [], score = JNum 50 \<rparr>"
proof -
  have ne: "lit risk_low_0_text \<noteq> []" by (simp add: lit_def risk_low_0_text_def)
  have p: "sample_JSON_parse (cleanResponse (lit risk_low_0_text)) =
      Some (JObj [(''riskLevel'', JStr ''low''), (''score'', JNum 0), (''flags'', JArr [])])"
    by (simp only: clean_sample parse_risk_low_0)
  have rd: "\<not> unreadable (JObj [(''riskLevel'', JStr ''low''), (''score'', JNum 0), (''flags'', JArr [])])"
    by (simp add: unreadable_def)
  show ?thesis
    unfolding analyze_parsed [where P = sample_JSON_parse, OF ne p rd]
    by (simp add: the_prop_def js_or_def)
qed

text \<open>
  Every other numeric score is returned unchanged, and an absent score becomes 50.
\<close>

lemma assess_score_nonzero:
  "r \<noteq> [] \<Longrightarrow> P (cleanResponse r) = Some p \<Longrightarrow> the_prop p ''score'' = JNum s \<Longrightarrow> s \<noteq> 0 \<Longrightarrow>
   analyzeFraudRisk P (Content (Some r)) u i =
     Inr \<lparr> riskLevel = the_prop p ''riskLevel'',
           flags = js_or (the_prop p ''flags'') (JArr []),
           score = JNum s \<rparr>"
proof -
  assume ne: "r \<noteq> []" and p: "P (cleanResponse r) = Some p"
    and sc: "the_prop p ''score'' = JNum s" and nz: "s \<noteq> 0"
  have rd: "\<not> unreadable p"
    using sc by (auto simp: unreadable_def the_prop_def)
  show ?thesis
    unfolding analyze_parsed [where P = P, OF ne p rd]
    using sc nz by (simp add: js_or_def)
qed

lemma assess_score_absent:
  "r \<noteq> [] \<Longrightarrow> P (cleanResponse r) = Some p \<Longrightarrow> \<not> unreadable p \<Longrightarrow>
   the_prop p ''score'' = JUndefined \<Longrightarrow>
   analyzeFraudRisk P (Content (Some r)) u i =
     Inr \<lparr> riskLevel = the_prop p ''riskLevel'',
           flags = js_or (the_prop p ''flags'') (JArr []),
           score = JNum 50 \<rparr>"
proof -
  assume ne: "r \<noteq> []" and p: "P (cleanResponse r) = Some p" and rd: "\<not> unreadable p"
    and ab: "the_prop p ''score'' = JUndefined"
  show ?thesis
    unfolding analyze_parsed [where P = P, OF ne p rd]
    using ab by (simp add: js_or_def)
qed

text \<open>
  Claim C1 says that the risk level of every assessment returned agrees with the banding
  of its score. The scorer copies both fields from the response and compares nothing: the
  response \<^verbatim>\<open>{"riskLevel":"low","score":90,"flags":[]}\<close> comes back as low with the
  score 90.
\<close>

theorem assess_banding_counterexample:
  "analyzeFraudRisk sample_JSON_parse (Content (Some (lit risk_low_90_text))) ''Pay John'' john_intent =
     Inr \<lparr> riskLevel = JStr ''low'', flags = JArr [], score = JNum 90 \<rparr>
   \<and> \<not> spec_banding \<lparr> riskLevel = JStr ''low'', flags = JArr [], score = JNum 90 \<rparr>"
  by (simp add: analyze_risk_low_90 spec_banding_def spec_band_def)

text \<open>
  Claim C1, amended. The scorer enforces no banding. The two fallback assessments are
  medium with the score 50, which agrees with the banding. For a response that parses and
  declares a nonzero numeric score, the assessment carries the response's \<^verbatim>\<open>riskLevel\<close>
  and that score unchanged, so it agrees with the banding exactly when the response's
  \<^verbatim>\<open>riskLevel\<close> is the band of the response's score. When the response declares no
  score, the score is 50 and the assessment agrees exactly when the response's
  \<^verbatim>\<open>riskLevel\<close> is medium.
\<close>

theorem assess_banding_amended:
  "(c = None \<or> c = Some [] \<or> (\<exists>r. c = Some r \<and> json_parse_fails P r) \<longrightarrow>
      (\<exists>a. analyzeFraudRisk P (Content c) u i = Inr a
           \<and> riskLevel a = JStr ''medium'' \<and> score a = JNum 50 \<and> spec_banding a))
   \<and> (r \<noteq> [] \<and> P (cleanResponse r) = Some p \<and> the_prop p ''score'' = JNum s \<and> s \<noteq> 0 \<longrightarrow>
      (\<exists>a. analyzeFraudRisk P (Content (Some r)) u i = Inr a
           \<and> riskLevel a = the_prop p ''riskLevel'' \<and> score a = JNum s
           \<and> (spec_banding a \<longleftrightarrow> the_prop p ''riskLevel'' = JStr (spec_band s))))
   \<and> (r \<noteq> [] \<and> P (cleanResponse r) = Some p \<and> \<not> unreadable p
        \<and> the_prop p ''score'' = JUndefined \<longrightarrow>
      (\<exists>a. analyzeFraudRisk P (Content (Some r)) u i = Inr a
           \<and> riskLevel a = the_prop p ''riskLevel'' \<and> score a = JNum 50
           \<and> (spec_banding a \<longleftrightarrow> the_prop p ''riskLevel'' = JStr ''medium'')))"
proof (intro conjI impI)
  assume "c = None \<or> c = Some [] \<or> (\<exists>r. c = Some r \<and> json_parse_fails P r)"
  then consider "c = None \<or> c = Some []" | r where "c = Some r" "r \<noteq> []" "json_parse_fails P r"
    by blast
  then show "\<exists>a. analyzeFraudRisk P (Content c) u i = Inr a
           \<and> riskLevel a = JStr ''medium'' \<and> score a = JNum 50 \<and> spec_banding a"
  proof cases
    case 1
    then show ?thesis
      by (simp add: analyze_no_content [of c P u i] spec_banding_def spec_band_def)
  next
    case 2
    then show ?thesis
      by (simp add: analyze_json_parse_fails [of r P u i] spec_banding_def spec_band_def)
  qed
next
  assume "r \<noteq> [] \<and> P (cleanResponse r) = Some p \<and> the_prop p ''score'' = JNum s \<and> s \<noteq> 0"
  then have ne: "r \<noteq> []" and p: "P (cleanResponse r) = Some p"
    and sc: "the_prop p ''score'' = JNum s" and nz: "s \<noteq> 0"
    by simp_all
  show "\<exists>a. analyzeFraudRisk P (Content (Some r)) u i = Inr a
           \<and> riskLevel a = the_prop p ''riskLevel'' \<and> score a = JNum s
           \<and> (spec_banding a \<longleftrightarrow> the_prop p ''riskLevel'' = JStr (spec_band s))"
    unfolding assess_score_nonzero [where P = P, OF ne p sc nz]
    by (simp add: spec_banding_def)
next
  assume "r \<noteq> [] \<and> P (cleanResponse r) = Some p \<and> \<not> unreadable p
        \<and> the_prop p ''score'' = JUndefined"
  then have ne: "r \<noteq> []" and p: "P (cleanResponse r) = Some p" and rd: "\<not> unreadable p"
    and ab: "the_prop p ''score'' = JUndefined"
    by simp_all
  show "\<exists>a. analyzeFraudRisk P (Content (Some r)) u i = Inr a
           \<and> riskLevel a = the_prop p ''riskLevel'' \<and> score a = JNum 50
           \<and> (spec_banding a \<longleftrightarrow> the_prop p ''riskLevel'' = JStr ''medium'')"
    unfolding assess_score_absent [where P = P, OF ne p rd ab]
    by (simp add: spec_banding_def spec_band_def)
qed

theorem assess_banding_amended_witness:
  "(\<exists>a. analyzeFraudRisk sample_JSON_parse (Content None) ''Pay John'' john_intent = Inr a
        \<and> riskLevel a = JStr ''medium'' \<and> score a = JNum 50 \<and> spec_banding a)
   \<and> (\<exists>a. analyzeFraudRisk sample_JSON_parse (Content (Some (lit risk_low_90_text))) ''Pay John'' john_intent = Inr a
        \<and> riskLevel a = JStr ''low'' \<and> score a = JNum 90 \<and> \<not> spec_banding a)
   \<and> (\<exists>a. analyzeFraudRisk sample_JSON_parse (Content (Some (lit ''5''))) ''Pay John'' john_intent = Inr a
        \<and> riskLevel a = JUndefined \<and> score a = JNum 50 \<and> \<not> spec_banding a)"
proof -
  let ?p = "JObj [(''riskLevel'', JStr ''low''), (''score'', JNum 90), (''flags'', JArr [])]"
  have ne: "lit risk_low_90_text \<noteq> []" by (simp add: lit_def risk_low_90_text_def)
  have p: "sample_JSON_parse (cleanResponse (lit risk_low_90_text)) = Some ?p"
    by (simp only: clean_sample parse_risk_low_90)
  have v: "the_prop ?p ''riskLevel'' = JStr ''low''" "the_prop ?p ''score'' = JNum 90"
    by (simp_all add: the_prop_def)
  have ne5: "lit ''5'' \<noteq> []" by (simp add: lit_def)
  have p5: "sample_JSON_parse (cleanResponse (lit ''5'')) = Some (JNum 5)"
    by (simp only: clean_sample parse_five)
  have v5: "the_prop (JNum 5) ''riskLevel'' = JUndefined" "the_prop (JNum 5) ''score'' = JUndefined"
    "\<not> unreadable (JNum 5)"
    by (simp_all add: the_prop_def unreadable_def)
  note t = assess_banding_amended
    [of None sample_JSON_parse "''Pay John''" john_intent "lit risk_low_90_text" ?p 90]
  note t5 = assess_banding_amended
    [of None sample_JSON_parse "''Pay John''" john_intent "lit ''5''" "JNum 5" 1]
  have a: "\<exists>a. analyzeFraudRisk sample_JSON_parse (Content None) ''Pay John'' john_intent = Inr a
        \<and> riskLevel a = JStr ''medium'' \<and> score a = JNum 50 \<and> spec_banding a"
    using t by blast
  have b: "\<exists>a. analyzeFraudRisk sample_JSON_parse (Content (Some (lit risk_low_90_text))) ''Pay John'' john_intent = Inr a
        \<and> riskLevel a = JStr ''low'' \<and> score a = JNum 90 \<and> \<not> spec_banding a"
    using t ne p v by (simp add: spec_band_def)
  have c: "\<exists>a. analyzeFraudRisk sample_JSON_parse (Content (Some (lit ''5''))) ''Pay John'' john_intent = Inr a
        \<and> riskLevel a = JUndefined \<and> score a = JNum 50 \<and> \<not> spec_banding a"
    using t5 ne5 p5 v5 by simp
  from a b c show ?thesis by (intro conjI)
qed

section \<open>The pipeline\<close>

text \<open>When the scoring call gives a completion with choices, the scorer degrades in place.\<close>

lemma process_scoring_content:
  "extractPaymentIntent P g1 u = Inr it \<Longrightarrow>
   \<exists>fa. analyzeFraudRisk P (Content c) u it = Inr fa
        \<and> processPaymentIntent P g1 (Content c) u = Inr \<lparr> intent = it, fraudAnalysis = fa \<rparr>"
proof -
  assume ex: "extractPaymentIntent P g1 u = Inr it"
  obtain fa where fa: "analyzeFraudRisk P (Content c) u it = Inr fa"
    using analyze_returns [of P c u it] by blast
  have "processPaymentIntent P g1 (Content c) u = Inr \<lparr> intent = it, fraudAnalysis = fa \<rparr>"
    by (rule process_scoring_returned [OF ex fa])
  with fa show ?thesis by blast
qed

text \<open>
  Claim C2. The pipeline is never to fail because of the risk scorer, also when the
  scoring call to the gateway itself fails. The \<^verbatim>\<open>try\<close> of \<^verbatim>\<open>analyzeFraudRisk\<close> begins
  after the awaited call and after the read of \<^verbatim>\<open>completion.choices[0]\<close>: when the
  scoring call throws, or its completion has no choices, the error leaves the scorer and
  \<^verbatim>\<open>processPaymentIntent\<close> fails, although the extraction had succeeded.
\<close>

theorem process_scoring_call_fails:
  "extractPaymentIntent sample_JSON_parse (Content (Some (lit john_text))) ''Pay John'' = Inr john_intent
   \<and> processPaymentIntent sample_JSON_parse (Content (Some (lit john_text))) Rejected ''Pay John'' =
       Inl (Error ''Failed to process payment intent'')
   \<and> processPaymentIntent sample_JSON_parse (Content (Some (lit john_text))) NoChoices ''Pay John'' =
       Inl (Error ''Failed to process payment intent'')"
  by (simp add: extract_john process_scoring_rejected)

lemma extract_five:
  "extractPaymentIntent sample_JSON_parse (Content (Some (lit ''5''))) u =
     Inr \<lparr> recipientName = JUndefined, iban = JUndefined, amount = JUndefined,
           currency = JStr ''EUR'', reference = JUndefined, confidence = JUndefined,
           suggestedPaymentType = JUndefined \<rparr>"
proof -
  have ne: "lit ''5'' \<noteq> []" by (simp add: lit_def)
  have p: "sample_JSON_parse (cleanResponse (lit ''5'')) = Some (JNum 5)"
    by (simp only: clean_sample parse_five)
  have rd: "\<not> unreadable (JNum 5)" by (simp add: unreadable_def)
  show ?thesis
    unfolding extract_parsed [where P = sample_JSON_parse, OF ne p rd]
    by (simp add: the_prop_def js_or_def)
qed

text \<open>
  Claim C5 says that the extraction fails exactly when the gateway returns empty content or
  content that is not parseable as the target schema. Neither direction holds. A call to
  the gateway that throws fails the extraction, and nothing is returned at all. The
  content \<^verbatim>\<open>5\<close> is not a payment intent record, and the extraction succeeds on it, with
  an intent whose fields are \<^verbatim>\<open>undefined\<close>.
\<close>

theorem extraction_failure_counterexample:
  "extractPaymentIntent sample_JSON_parse Rejected ''Pay John'' = Inl APIError
   \<and> \<not> spec_extraction_failure sample_JSON_parse Rejected
   \<and> spec_extraction_failure sample_JSON_parse (Content (Some (lit ''5'')))
   \<and> \<not> isl (extractPaymentIntent sample_JSON_parse (Content (Some (lit ''5''))) ''Pay John'')"
  by (simp add: extract_rejected extract_five spec_extraction_failure_def spec_parses_as_def
        clean_sample parse_five spec_intent_schema_def)

text \<open>
  Claim C5, amended. The extraction fails exactly when the call to the gateway itself
  fails (the awaited call throws, or its completion has no choices to read), or the
  gateway returns empty content, or content on which \<^verbatim>\<open>JSON.parse\<close> throws or gives
  \<^verbatim>\<open>null\<close> after the code fences and the white space around the text are stripped.
  Content that parses to any other value is not checked against the target schema and
  gives an intent. Every extraction failure aborts the pipeline:
  \<^verbatim>\<open>processPaymentIntent\<close> returns the error and no result, whatever the scoring call
  would answer.
\<close>

theorem extraction_failure_amended:
  "(isl (extractPaymentIntent P g u) \<longleftrightarrow>
      g = Rejected \<or> g = NoChoices \<or> g = Content None \<or> g = Content (Some [])
      \<or> (\<exists>r. g = Content (Some r)
             \<and> (P (cleanResponse r) = None \<or> (\<exists>p. P (cleanResponse r) = Some p \<and> unreadable p))))
   \<and> (isl (extractPaymentIntent P g u) \<longrightarrow>
        processPaymentIntent P g g2 u = Inl (Error ''Failed to process payment intent''))"
proof
  have "json_parse_fails P r \<longleftrightarrow>
      P (cleanResponse r) = None \<or> (\<exists>p. P (cleanResponse r) = Some p \<and> unreadable p)" for r
    by (auto simp: json_parse_fails_def split: option.splits)
  then show "isl (extractPaymentIntent P g u) \<longleftrightarrow>
      g = Rejected \<or> g = NoChoices \<or> g = Content None \<or> g = Content (Some [])
      \<or> (\<exists>r. g = Content (Some r)
             \<and> (P (cleanResponse r) = None \<or> (\<exists>p. P (cleanResponse r) = Some p \<and> unreadable p)))"
    unfolding extract_fails_iff by auto
next
  show "isl (extractPaymentIntent P g u) \<longrightarrow>
        processPaymentIntent P g g2 u = Inl (Error ''Failed to process payment intent'')"
  proof
    assume "isl (extractPaymentIntent P g u)"
    then obtain e where "extractPaymentIntent P g u = Inl e"
      by (cases "extractPaymentIntent P g u") simp_all
    then show "processPaymentIntent P g g2 u = Inl (Error ''Failed to process payment intent'')"
      by (rule process_extraction_failed)
  qed
qed

theorem extraction_failure_amended_witness:
  "isl (extractPaymentIntent sample_JSON_parse (Content (Some (lit ''not json''))) ''Pay John'')
   \<and> processPaymentIntent sample_JSON_parse (Content (Some (lit ''not json''))) (Content None) ''Pay John'' =
       Inl (Error ''Failed to process payment intent'')
   \<and> \<not> isl (extractPaymentIntent sample_JSON_parse
        (Content (Some (lit ''```json'' @ [10] @ lit john_text @ [10] @ lit ''```''))) ''Pay John'')
   \<and> \<not> isl (extractPaymentIntent sample_JSON_parse
        (Content (Some ([160] @ lit john_text @ [65279, 8232]))) ''Pay John'')"
proof -
  let ?n = "lit ''not json''"
  let ?f = "lit ''```json'' @ [10] @ lit john_text @ [10] @ lit ''```''"
  let ?s = "[160] @ lit john_text @ [65279, 8232]"
  have rd: "\<not> unreadable john_parsed" by (simp add: unreadable_def john_parsed_def)
  have n: "sample_JSON_parse (cleanResponse ?n) = None"
    by (simp only: clean_sample parse_not_json)
  have f: "sample_JSON_parse (cleanResponse ?f) = Some john_parsed" "?f \<noteq> []"
    by (simp_all only: clean_fenced_john parse_john) (simp add: lit_def)
  have s: "sample_JSON_parse (cleanResponse ?s) = Some john_parsed" "?s \<noteq> []"
    by (simp_all only: clean_nbsp_john parse_john) simp
  note t = extraction_failure_amended [of sample_JSON_parse _ "''Pay John''" "Content None"]
  have a: "isl (extractPaymentIntent sample_JSON_parse (Content (Some ?n)) ''Pay John'')"
    using t [of "Content (Some ?n)"] n by simp
  then have b: "processPaymentIntent sample_JSON_parse (Content (Some ?n)) (Content None) ''Pay John'' =
       Inl (Error ''Failed to process payment intent'')"
    using t [of "Content (Some ?n)"] by blast
  have c: "\<not> isl (extractPaymentIntent sample_JSON_parse (Content (Some ?f)) ''Pay John'')"
    using t [of "Content (Some ?f)"] f rd by simp
  have d: "\<not> isl (extractPaymentIntent sample_JSON_parse (Content (Some ?s)) ''Pay John'')"
    using t [of "Content (Some ?s)"] s rd by simp
  from a b c d show ?thesis by (intro conjI)
qed

section \<open>Facts about the formatters\<close>

text \<open>The date part of an ISO timestamp consists of digits, hyphens and a sign.\<close>

lemma digit_char_is_digit: "digit_char n \<in> set ''0123456789''"
proof -
  have "n mod 10 < length ''0123456789''" by simp
  then show ?thesis
    unfolding digit_char_def by (rule nth_mem)
qed

lemma pad_digits: "set (pad w n) \<subseteq> set ''0123456789''"
proof (induction w arbitrary: n)
  case 0
  show ?case by simp
next
  case (Suc w)
  have "set (pad w (n div 10)) \<subseteq> set ''0123456789''" by (rule Suc.IH)
  moreover have "digit_char n \<in> set ''0123456789''" by (rule digit_char_is_digit)
  ultimately show ?case by simp
qed

lemma pad_no_T: "CHR ''T'' \<notin> set (pad w n)"
  using pad_digits [of w n] by auto

lemma iso_date_no_T: "CHR ''T'' \<notin> set (iso_date d)"
  by (simp add: iso_date_def iso_year_def pad_no_T)

lemma split_first_toISOString: "split_first (CHR ''T'') (toISOString d) = iso_date d"
proof -
  have "\<forall>x \<in> set (iso_date d). x \<noteq> CHR ''T''"
    using iso_date_no_T [of d] by blast
  then show ?thesis
    by (simp add: split_first_def toISOString_def)
qed

text \<open>The three slices that \<^verbatim>\<open>formatFasterPayments\<close> takes.\<close>

lemma slice_index_from_end: "0 < k \<Longrightarrow> slice_index n (- int k) = n - k"
  by (auto simp: slice_index_def)

lemma js_slice_last: "0 < k \<Longrightarrow> js_slice xs (- int k) None = drop (length xs - k) xs"
proof -
  assume "0 < k"
  then have "slice_index (length xs) (- int k) = length xs - k"
    by (rule slice_index_from_end)
  then show ?thesis
    by (simp add: js_slice_def Let_def)
qed

lemma js_slice_before_last:
  "0 < k \<Longrightarrow> k \<le> m \<Longrightarrow>
   js_slice xs (- int m) (Some (- int k)) @ drop (length xs - k) xs = drop (length xs - m) xs"
proof -
  assume k0: "0 < k" and km: "k \<le> m"
  define a where "a = length xs - m"
  define j where "j = (length xs - k) - a"
  have lo: "slice_index (length xs) (- int m) = a"
    using k0 km by (simp add: slice_index_from_end a_def)
  have hi: "slice_index (length xs) (- int k) = length xs - k"
    using k0 by (rule slice_index_from_end)
  have s: "js_slice xs (- int m) (Some (- int k)) = take j (drop a xs)"
    by (simp only: js_slice_def Let_def lo hi option.case j_def)
  have "j + a = length xs - k"
    using km unfolding j_def a_def by arith
  then have "drop (length xs - k) xs = drop j (drop a xs)"
    by (simp only: drop_drop)
  with s have "js_slice xs (- int m) (Some (- int k)) @ drop (length xs - k) xs =
      take j (drop a xs) @ drop j (drop a xs)"
    by (simp only:)
  also have "\<dots> = drop a xs"
    by (rule append_take_drop_id)
  finally show ?thesis
    unfolding a_def .
qed

lemma js_slice_prefix: "js_slice xs 0 (Some (int k)) = take k xs"
  by (simp add: js_slice_def Let_def slice_index_def min_def)

lemma chain_slice_optional_string:
  "optional_string v \<Longrightarrow>
   chain_slice v 0 (Some 18) = Inr (case v of JStr r \<Rightarrow> JStr (take 18 r) | _ \<Rightarrow> JUndefined)"
  using js_slice_prefix [of _ 18] by (cases v) simp_all

lemma chain_replace_slice_absent:
  "v = JUndefined \<or> v = JNull \<Longrightarrow> chain_replace_slice v b e = Inr JUndefined"
  by auto

lemma format_payment_SEPA:
  "suggestedPaymentType i = JStr ''SEPA'' \<Longrightarrow> format_payment now i = Inr (SEPA (formatSEPA now i))"
  by (simp add: format_payment_def)

lemma format_payment_FasterPayments:
  "suggestedPaymentType i = JStr ''FasterPayments'' \<Longrightarrow>
   format_payment now i = bindE (formatFasterPayments now i) (\<lambda>p. Inr (FasterPayments p))"
  by (simp add: format_payment_def)

lemma format_payment_other:
  "suggestedPaymentType i \<noteq> JStr ''SEPA'' \<Longrightarrow> suggestedPaymentType i \<noteq> JStr ''FasterPayments'' \<Longrightarrow>
   format_payment now i = Inr Unformatted"
  by (simp add: format_payment_def)

lemma formatFasterPayments_typed:
  "optional_string (iban i) \<Longrightarrow> optional_string (reference i) \<Longrightarrow>
   \<exists>p. formatFasterPayments now i = Inr p"
  by (cases "iban i"; cases "reference i") (simp_all add: formatFasterPayments_def)

text \<open>
  Outside the interface the call can throw: the extractor copies the fields unchecked, and
  a number has no \<^verbatim>\<open>replace\<close> method.
\<close>

lemma formatFasterPayments_number_iban:
  "iban i = JNum x \<Longrightarrow> formatFasterPayments now i = Inl TypeError"
  by (simp add: formatFasterPayments_def)

section \<open>The scheme formatter\<close>

text \<open>
  Claim C6. For every intent with \<^verbatim>\<open>suggestedPaymentType\<close> "FasterPayments" (its
  \<^verbatim>\<open>iban\<close> a string, its \<^verbatim>\<open>reference\<close> a string or absent, as the interface declares
  them), formatting returns a Faster Payments payment whose currency is "GBP" whatever the
  intent's currency, whose reference is the first 18 characters of the intent's reference
  and so has length at most 18, whose \<^verbatim>\<open>payeeAccountNumber\<close> is the last 8 digits of the
  IBAN with every non-digit removed, and whose \<^verbatim>\<open>sortCode\<close> is what precedes those 8
  within the last 14 digits. A digit string shorter than 14 gives shorter or empty
  substrings, not an error.
\<close>

theorem format_faster_payments:
  assumes tp: "suggestedPaymentType i = JStr ''FasterPayments''"
    and ib: "iban i = JStr s"
    and rf: "optional_string (reference i)"
    and d: "d = filter (\<lambda>c. c \<in> set ''0123456789'') s"
  shows "\<exists>p. format_payment now i = Inr (FasterPayments p)
           \<and> fp_currency p = ''GBP''
           \<and> payeeAccountNumber p = JStr (drop (length d - 8) d)
           \<and> (\<exists>sc. sortCode p = JStr sc \<and> sc @ drop (length d - 8) d = drop (length d - 14) d)
           \<and> (\<forall>r. reference i = JStr r \<longrightarrow> fp_reference p = JStr (take 18 r))
           \<and> (\<forall>r. fp_reference p = JStr r \<longrightarrow> length r \<le> 18)"
proof -
  have ds: "strip_non_digits s = d"
    unfolding d strip_non_digits_def is_digit_def by (rule refl)
  have acct: "js_slice d (- 8) None = drop (length d - 8) d"
    using js_slice_last [of 8 d] by simp
  have sort: "js_slice d (- 14) (Some (- 8)) @ drop (length d - 8) d = drop (length d - 14) d"
    using js_slice_before_last [of 8 14 d] by simp
  let ?ref = "case reference i of JStr r \<Rightarrow> JStr (take 18 r) | _ \<Rightarrow> JUndefined"
  let ?p = "\<lparr> fp_paymentType = ''FasterPayments'', payeeName = recipientName i,
       payeeAccountNumber = JStr (js_slice d (- 8) None),
       sortCode = JStr (js_slice d (- 14) (Some (- 8))),
       fp_amount = amount i, fp_currency = ''GBP'', fp_reference = ?ref,
       paymentDateTime = toISOString now \<rparr>"
  have f: "formatFasterPayments now i = Inr ?p"
    by (simp add: formatFasterPayments_def ib ds chain_slice_optional_string [OF rf])
  have fp: "format_payment now i = Inr (FasterPayments ?p)"
    by (simp add: format_payment_FasterPayments [OF tp] f)
  have cur: "fp_currency ?p = ''GBP''" by simp
  have ac: "payeeAccountNumber ?p = JStr (drop (length d - 8) d)"
    by (simp add: acct)
  have sc: "\<exists>sc. sortCode ?p = JStr sc \<and> sc @ drop (length d - 8) d = drop (length d - 14) d"
    using sort by simp
  have r1: "\<forall>r. reference i = JStr r \<longrightarrow> fp_reference ?p = JStr (take 18 r)"
    by simp
  have r2: "\<forall>r. fp_reference ?p = JStr r \<longrightarrow> length r \<le> 18"
    by (cases "reference i") auto
  from fp cur ac sc r1 r2 show ?thesis
    by (intro exI [of _ ?p] conjI)
qed

theorem format_faster_payments_witness:
  "\<exists>p. format_payment sample_now mary_intent = Inr (FasterPayments p)
       \<and> fp_currency p = ''GBP''
       \<and> payeeAccountNumber p = JStr ''31926819''
       \<and> sortCode p = JStr ''601613''
       \<and> fp_reference p = JStr ''rent payment for M''"
proof -
  have d: "''2960161331926819'' = filter (\<lambda>c. c \<in> set ''0123456789'') ''GB29NWBK60161331926819''"
    by simp
  have tp: "suggestedPaymentType mary_intent = JStr ''FasterPayments''"
    and ib: "iban mary_intent = JStr ''GB29NWBK60161331926819''"
    and rf: "optional_string (reference mary_intent)"
    and r: "reference mary_intent = JStr ''rent payment for March apartment''"
    by (simp_all add: mary_intent_def)
  from format_faster_payments [OF tp ib rf d, of sample_now]
  obtain p sc where p: "format_payment sample_now mary_intent = Inr (FasterPayments p)"
    "fp_currency p = ''GBP''"
    "payeeAccountNumber p = JStr (drop (length ''2960161331926819'' - 8) ''2960161331926819'')"
    "sortCode p = JStr sc"
    "sc @ drop (length ''2960161331926819'' - 8) ''2960161331926819'' =
       drop (length ''2960161331926819'' - 14) ''2960161331926819''"
    "\<forall>r. reference mary_intent = JStr r \<longrightarrow> fp_reference p = JStr (take 18 r)"
    by blast
  from p(5) have "sc @ ''31926819'' = ''601613'' @ ''31926819''" by simp
  then have "sc = ''601613''" by (simp only: append_same_eq)
  moreover from p(6) r have "fp_reference p = JStr ''rent payment for M''" by simp
  moreover from p(3) have "payeeAccountNumber p = JStr ''31926819''" by simp
  ultimately show ?thesis
    using p(1,2,4) by blast
qed

text \<open>
  Claim C10. For every intent whose \<^verbatim>\<open>iban\<close> is absent, \<^verbatim>\<open>formatFasterPayments\<close>
  still returns a payment and raises no error: \<^verbatim>\<open>payeeAccountNumber\<close> and \<^verbatim>\<open>sortCode\<close>
  are both \<^verbatim>\<open>undefined\<close>, not empty strings, and the other fields are produced as usual
  (\<^verbatim>\<open>payeeName\<close>, \<^verbatim>\<open>amount\<close>, currency "GBP", the reference cut to 18 characters).
\<close>

theorem format_faster_payments_without_iban:
  assumes ib: "iban i = JUndefined \<or> iban i = JNull"
    and rf: "optional_string (reference i)"
  shows "formatFasterPayments now i =
     Inr \<lparr> fp_paymentType = ''FasterPayments'',
           payeeName = recipientName i,
           payeeAccountNumber = JUndefined,
           sortCode = JUndefined,
           fp_amount = amount i,
           fp_currency = ''GBP'',
           fp_reference = (case reference i of JStr r \<Rightarrow> JStr (take 18 r) | _ \<Rightarrow> JUndefined),
           paymentDateTime = toISOString now \<rparr>"
  by (simp add: formatFasterPayments_def chain_replace_slice_absent [OF ib]
        chain_slice_optional_string [OF rf])

theorem format_faster_payments_without_iban_witness:
  "formatFasterPayments sample_now (john_intent \<lparr> suggestedPaymentType := JStr ''FasterPayments'' \<rparr>) =
     Inr \<lparr> fp_paymentType = ''FasterPayments'',
           payeeName = JStr ''John'',
           payeeAccountNumber = JUndefined,
           sortCode = JUndefined,
           fp_amount = JNum 50,
           fp_currency = ''GBP'',
           fp_reference = JStr ''dinner'',
           paymentDateTime = toISOString sample_now \<rparr>"
proof -
  let ?i = "john_intent \<lparr> suggestedPaymentType := JStr ''FasterPayments'' \<rparr>"
  have ib: "iban ?i = JUndefined \<or> iban ?i = JNull" by (simp add: john_intent_def)
  have rf: "optional_string (reference ?i)" by (simp add: john_intent_def)
  show ?thesis
    using format_faster_payments_without_iban [OF ib rf, of sample_now]
    by (simp add: john_intent_def)
qed

lemma extract_mary_numeric:
  "extractPaymentIntent sample_JSON_parse (Content (Some (lit mary_numeric_text))) u =
     Inr mary_numeric_intent"
proof -
  have ne: "lit mary_numeric_text \<noteq> []" by (simp add: lit_def mary_numeric_text_def)
  have p: "sample_JSON_parse (cleanResponse (lit mary_numeric_text)) = Some mary_numeric_parsed"
    by (simp only: clean_sample parse_mary_numeric)
  have rd: "\<not> unreadable mary_numeric_parsed"
    by (simp add: unreadable_def mary_numeric_parsed_def)
  show ?thesis
    unfolding extract_parsed [where P = sample_JSON_parse, OF ne p rd]
    by (simp add: the_prop_def mary_numeric_parsed_def mary_numeric_intent_def js_or_def)
qed

text \<open>
  Claim C7 says that formatting has no failure mode. The extractor copies the gateway's
  fields unchecked: a response with a numeric \<^verbatim>\<open>iban\<close> and the scheme "FasterPayments"
  gives an intent on which \<^verbatim>\<open>intent.iban?.replace\<close> throws, and the handler answers with
  status 500.
\<close>

theorem format_failure_counterexample:
  "extractPaymentIntent sample_JSON_parse (Content (Some (lit mary_numeric_text))) ''Pay Mary'' =
     Inr mary_numeric_intent
   \<and> format_payment sample_now mary_numeric_intent = Inl TypeError
   \<and> POST sample_JSON_parse (Some (JObj [(''userInput'', JStr ''Pay Mary'')]))
       (Content (Some (lit mary_numeric_text))) (Content None) sample_now sample_now =
     ErrorResponse ''Failed to process payment intent'' 500"
proof -
  have f: "format_payment sample_now mary_numeric_intent = Inl TypeError"
    by (simp add: format_payment_def formatFasterPayments_def mary_numeric_intent_def)
  have pr: "processPaymentIntent sample_JSON_parse (Content (Some (lit mary_numeric_text)))
      (Content None) ''Pay Mary'' =
      Inr \<lparr> intent = mary_numeric_intent,
            fraudAnalysis = \<lparr> riskLevel = JStr ''medium'',
              flags = JArr [JStr ''Analysis unavailable''], score = JNum 50 \<rparr> \<rparr>"
    by (rule process_scoring_returned [OF extract_mary_numeric]) (simp add: analyze_no_content)
  have "POST sample_JSON_parse (Some (JObj [(''userInput'', JStr ''Pay Mary'')]))
       (Content (Some (lit mary_numeric_text))) (Content None) sample_now sample_now =
     ErrorResponse ''Failed to process payment intent'' 500"
    by (simp add: POST_def pr f)
  with f show ?thesis
    by (simp add: extract_mary_numeric)
qed

text \<open>
  Claim C7, amended. For every intent with \<^verbatim>\<open>suggestedPaymentType\<close> "Unknown" the
  formatting step leaves \<^verbatim>\<open>formattedPayment\<close> unformatted; and on every intent whose
  \<^verbatim>\<open>iban\<close> and \<^verbatim>\<open>reference\<close> are strings or absent, as the interface
  \<^verbatim>\<open>PaymentIntent\<close> declares them, formatting returns one of the three variants, the one
  that \<^verbatim>\<open>suggestedPaymentType\<close> selects.
\<close>

theorem format_no_failure:
  "(suggestedPaymentType i = JStr ''Unknown'' \<longrightarrow> format_payment now i = Inr Unformatted)
   \<and> (optional_string (iban i) \<and> optional_string (reference i) \<longrightarrow>
        (if suggestedPaymentType i = JStr ''SEPA''
         then \<exists>p. format_payment now i = Inr (SEPA p)
         else if suggestedPaymentType i = JStr ''FasterPayments''
         then \<exists>p. format_payment now i = Inr (FasterPayments p)
         else format_payment now i = Inr Unformatted))"
proof (intro conjI impI)
  assume "suggestedPaymentType i = JStr ''Unknown''"
  then show "format_payment now i = Inr Unformatted"
    by (simp add: format_payment_other)
next
  assume "optional_string (iban i) \<and> optional_string (reference i)"
  then obtain p where p: "formatFasterPayments now i = Inr p"
    using formatFasterPayments_typed [of i now] by blast
  show "if suggestedPaymentType i = JStr ''SEPA''
         then \<exists>p. format_payment now i = Inr (SEPA p)
         else if suggestedPaymentType i = JStr ''FasterPayments''
         then \<exists>p. format_payment now i = Inr (FasterPayments p)
         else format_payment now i = Inr Unformatted"
    by (simp add: format_payment_def p)
qed

theorem format_no_failure_witness:
  "format_payment sample_now cafe_intent = Inr Unformatted
   \<and> (\<exists>p. format_payment sample_now mary_intent = Inr (FasterPayments p))"
proof -
  have a: "suggestedPaymentType cafe_intent = JStr ''Unknown''"
    by (simp add: cafe_intent_def)
  have b: "optional_string (iban mary_intent) \<and> optional_string (reference mary_intent)"
    by (simp add: mary_intent_def)
  have c: "suggestedPaymentType mary_intent = JStr ''FasterPayments''"
    by (simp add: mary_intent_def)
  have "format_payment sample_now cafe_intent = Inr Unformatted"
    using format_no_failure [of cafe_intent sample_now] a by blast
  moreover have "\<exists>p. format_payment sample_now mary_intent = Inr (FasterPayments p)"
    using format_no_failure [of mary_intent sample_now] b by (simp add: c)
  ultimately show ?thesis by blast
qed

text \<open>The sample instant, printed.\<close>

lemma iso_date_sample: "iso_date sample_now = ''2026-11-01''"
  by code_simp

lemma toISOString_sample: "toISOString sample_now = ''2026-11-01T09:05:07.042Z''"
  by code_simp

lemma extract_currency_truthy: "extractPaymentIntent P g u = Inr i \<Longrightarrow> truthy (currency i)"
proof -
  assume e: "extractPaymentIntent P g u = Inr i"
  then have "\<not> isl (extractPaymentIntent P g u)" by simp
  then obtain r p where g: "g = Content (Some r)" and ne: "r \<noteq> []"
    and p: "P (cleanResponse r) = Some p" and rd: "\<not> unreadable p"
    unfolding extract_fails_iff
    by (cases g) (auto simp: json_parse_fails_def split: option.splits)
  from e have "currency i = js_or (the_prop p ''currency'') (JStr ''EUR'')"
    unfolding g extract_parsed [where P = P, OF ne p rd] by auto
  then show ?thesis by (simp add: js_or_def)
qed

text \<open>
  Claim C8. For every intent with \<^verbatim>\<open>suggestedPaymentType\<close> "SEPA", formatting returns
  a SEPA payment whose \<^verbatim>\<open>creditorName\<close> is the intent's \<^verbatim>\<open>recipientName\<close>, whose
  \<^verbatim>\<open>creditorIBAN\<close> is its \<^verbatim>\<open>iban\<close>, whose \<^verbatim>\<open>amount\<close> is its \<^verbatim>\<open>amount\<close>, whose
  \<^verbatim>\<open>remittanceInformation\<close> is its \<^verbatim>\<open>reference\<close>, whose currency is the intent's
  currency, or "EUR" when the currency is absent (\<^verbatim>\<open>undefined\<close>, \<^verbatim>\<open>null\<close> or empty; an
  intent that the extractor returns always carries one), and whose \<^verbatim>\<open>executionDate\<close> is
  the date part (year, month, day in UTC) of the current instant, with no time component.
\<close>

theorem format_sepa:
  "suggestedPaymentType i = JStr ''SEPA'' \<Longrightarrow>
   format_payment now i = Inr (SEPA (formatSEPA now i))
   \<and> creditorName (formatSEPA now i) = recipientName i
   \<and> creditorIBAN (formatSEPA now i) = iban i
   \<and> sepa_amount (formatSEPA now i) = amount i
   \<and> remittanceInformation (formatSEPA now i) = reference i
   \<and> (truthy (currency i) \<longrightarrow> sepa_currency (formatSEPA now i) = currency i)
   \<and> (currency i = JUndefined \<or> currency i = JNull \<or> currency i = JStr [] \<longrightarrow>
        sepa_currency (formatSEPA now i) = JStr ''EUR'')
   \<and> (extractPaymentIntent P g u = Inr i \<longrightarrow> sepa_currency (formatSEPA now i) = currency i)
   \<and> executionDate (formatSEPA now i) =
        iso_year (year now) @ ''-'' @ pad 2 (month now) @ ''-'' @ pad 2 (day now)"
proof -
  assume tp: "suggestedPaymentType i = JStr ''SEPA''"
  have f: "format_payment now i = Inr (SEPA (formatSEPA now i))"
    using tp by (rule format_payment_SEPA)
  have copies: "creditorName (formatSEPA now i) = recipientName i"
    "creditorIBAN (formatSEPA now i) = iban i"
    "sepa_amount (formatSEPA now i) = amount i"
    "remittanceInformation (formatSEPA now i) = reference i"
    by (simp_all add: formatSEPA_def)
  have c1: "truthy (currency i) \<longrightarrow> sepa_currency (formatSEPA now i) = currency i"
    by (simp add: formatSEPA_def js_or_def)
  have c2: "currency i = JUndefined \<or> currency i = JNull \<or> currency i = JStr [] \<longrightarrow>
        sepa_currency (formatSEPA now i) = JStr ''EUR''"
    by (auto simp: formatSEPA_def js_or_def)
  have c3: "extractPaymentIntent P g u = Inr i \<longrightarrow> sepa_currency (formatSEPA now i) = currency i"
    using c1 extract_currency_truthy [of P g u i] by blast
  have "executionDate (formatSEPA now i) = iso_date now"
    by (simp add: formatSEPA_def split_first_toISOString)
  then have d: "executionDate (formatSEPA now i) =
        iso_year (year now) @ ''-'' @ pad 2 (month now) @ ''-'' @ pad 2 (day now)"
    by (simp only: iso_date_def)
  from f copies c1 c2 c3 d show ?thesis
    by (intro conjI)
qed

theorem format_sepa_witness:
  "format_payment sample_now john_intent = Inr (SEPA (formatSEPA sample_now john_intent))
   \<and> creditorName (formatSEPA sample_now john_intent) = JStr ''John''
   \<and> creditorIBAN (formatSEPA sample_now john_intent) = JUndefined
   \<and> sepa_amount (formatSEPA sample_now john_intent) = JNum 50
   \<and> remittanceInformation (formatSEPA sample_now john_intent) = JStr ''dinner''
   \<and> sepa_currency (formatSEPA sample_now john_intent) = JStr ''EUR''
   \<and> executionDate (formatSEPA sample_now john_intent) = ''2026-11-01''
   \<and> sepa_currency (formatSEPA sample_now (john_intent \<lparr> currency := JUndefined \<rparr>)) = JStr ''EUR''"
proof -
  have tp: "suggestedPaymentType john_intent = JStr ''SEPA''"
    by (simp add: john_intent_def)
  have tp': "suggestedPaymentType (john_intent \<lparr> currency := JUndefined \<rparr>) = JStr ''SEPA''"
    by (simp add: john_intent_def)
  have v: "recipientName john_intent = JStr ''John''" "iban john_intent = JUndefined"
    "amount john_intent = JNum 50" "reference john_intent = JStr ''dinner''"
    "currency john_intent = JStr ''EUR''"
    "currency (john_intent \<lparr> currency := JUndefined \<rparr>) = JUndefined"
    by (simp_all add: john_intent_def)
  note t = format_sepa [OF tp, of sample_now sample_JSON_parse "Content (Some (lit john_text))" "''Pay John''"]
  note t' = format_sepa [OF tp', of sample_now sample_JSON_parse Rejected "''Pay John''"]
  have "executionDate (formatSEPA sample_now john_intent) = iso_date sample_now"
    unfolding iso_date_def using t by blast
  then have d: "executionDate (formatSEPA sample_now john_intent) = ''2026-11-01''"
    by (simp only: iso_date_sample)
  have c: "sepa_currency (formatSEPA sample_now john_intent) = JStr ''EUR''"
    using t extract_john [of "''Pay John''"] v(5) by simp
  have c': "sepa_currency (formatSEPA sample_now (john_intent \<lparr> currency := JUndefined \<rparr>)) = JStr ''EUR''"
    using t' v(6) by blast
  have f: "format_payment sample_now john_intent = Inr (SEPA (formatSEPA sample_now john_intent))"
    using t by blast
  have n: "creditorName (formatSEPA sample_now john_intent) = JStr ''John''"
    "creditorIBAN (formatSEPA sample_now john_intent) = JUndefined"
    "sepa_amount (formatSEPA sample_now john_intent) = JNum 50"
    "remittanceInformation (formatSEPA sample_now john_intent) = JStr ''dinner''"
    using t v(1-4) by simp_all
  from f n c d c' show ?thesis
    by (intro conjI)
qed

section \<open>The request handler\<close>

text \<open>The three ways through the handler.\<close>

lemma POST_pipeline:
  "\<not> unreadable b \<Longrightarrow> the_prop b ''userInput'' = JStr u \<Longrightarrow> u \<noteq> [] \<Longrightarrow>
   POST P (Some b) g1 g2 t1 t2 =
     (case processPaymentIntent P g1 g2 u of
        Inl e \<Rightarrow> ErrorResponse ''Failed to process payment intent'' 500
      | Inr result \<Rightarrow>
          (case format_payment t1 (intent result) of
             Inl e \<Rightarrow> ErrorResponse ''Failed to process payment intent'' 500
           | Inr f \<Rightarrow>
               SuccessResponse
                 \<lparr> originalInput = u, parsedIntent = intent result,
                   data_fraudAnalysis = fraudAnalysis result, formattedPayment = f,
                   processingTimestamp = toISOString t2 \<rparr>))"
  by (simp add: POST_def get_prop_readable bindE_def split: sum.splits)

lemma POST_rejected:
  "\<not> unreadable b \<Longrightarrow> \<forall>u. the_prop b ''userInput'' = JStr u \<longrightarrow> u = [] \<Longrightarrow>
   POST P (Some b) g1 g2 t1 t2 = ErrorResponse ''Invalid payment instruction'' 400"
  by (cases "the_prop b ''userInput''") (simp_all add: POST_def get_prop_readable)

lemma POST_unreadable:
  "body = None \<or> body = Some JNull \<Longrightarrow>
   POST P body g1 g2 t1 t2 = ErrorResponse ''Failed to process payment intent'' 500"
  by (auto simp: POST_def)

text \<open>
  Claim C9 says that the request is rejected with the client error exactly when
  \<^verbatim>\<open>userInput\<close> is missing or not a string, so that every string runs the pipeline. The
  guard is \<^verbatim>\<open>!userInput || typeof userInput !== 'string'\<close>, and the empty string is falsy:
  it is rejected with status 400.
\<close>

theorem post_empty_string_counterexample:
  "POST sample_JSON_parse (Some (JObj [(''userInput'', JStr [])]))
     (Content (Some (lit john_text))) (Content None) sample_now sample_now =
   ErrorResponse ''Invalid payment instruction'' 400"
  by (simp add: POST_def)

text \<open>
  Claim C9, amended. For a request whose body is a JSON value other than \<^verbatim>\<open>null\<close>, the
  handler answers with the client error (status 400) exactly when \<^verbatim>\<open>userInput\<close> is
  missing, not a string, or the empty string. For every body whose \<^verbatim>\<open>userInput\<close> is a
  non-empty string it runs the pipeline on that string, and its response is the success
  response built from the pipeline's result, or the server error (status 500) when the
  pipeline or the formatting throws.
\<close>

theorem post_validation_amended:
  assumes rd: "\<not> unreadable b"
  shows "(POST P (Some b) g1 g2 t1 t2 = ErrorResponse ''Invalid payment instruction'' 400
       \<longleftrightarrow> (\<forall>u. the_prop b ''userInput'' = JStr u \<longrightarrow> u = []))
     \<and> (\<forall>u. the_prop b ''userInput'' = JStr u \<and> u \<noteq> [] \<longrightarrow>
          POST P (Some b) g1 g2 t1 t2 =
            (case processPaymentIntent P g1 g2 u of
               Inl e \<Rightarrow> ErrorResponse ''Failed to process payment intent'' 500
             | Inr result \<Rightarrow>
                 (case format_payment t1 (intent result) of
                    Inl e \<Rightarrow> ErrorResponse ''Failed to process payment intent'' 500
                  | Inr f \<Rightarrow>
                      SuccessResponse
                        \<lparr> originalInput = u, parsedIntent = intent result,
                          data_fraudAnalysis = fraudAnalysis result, formattedPayment = f,
                          processingTimestamp = toISOString t2 \<rparr>)))"
proof (intro conjI allI impI iffI)
  assume "\<forall>u. the_prop b ''userInput'' = JStr u \<longrightarrow> u = []"
  with rd show "POST P (Some b) g1 g2 t1 t2 = ErrorResponse ''Invalid payment instruction'' 400"
    by (rule POST_rejected)
next
  fix u
  assume r: "POST P (Some b) g1 g2 t1 t2 = ErrorResponse ''Invalid payment instruction'' 400"
    and s: "the_prop b ''userInput'' = JStr u"
  show "u = []"
  proof (rule ccontr)
    assume ne: "u \<noteq> []"
    have "POST P (Some b) g1 g2 t1 t2 \<noteq> ErrorResponse ''Invalid payment instruction'' 400"
      unfolding POST_pipeline [OF rd s ne] by (simp split: sum.splits)
    with r show False by simp
  qed
next
  fix u
  assume "the_prop b ''userInput'' = JStr u \<and> u \<noteq> []"
  then have s: "the_prop b ''userInput'' = JStr u" and ne: "u \<noteq> []" by simp_all
  show "POST P (Some b) g1 g2 t1 t2 =
            (case processPaymentIntent P g1 g2 u of
               Inl e \<Rightarrow> ErrorResponse ''Failed to process payment intent'' 500
             | Inr result \<Rightarrow>
                 (case format_payment t1 (intent result) of
                    Inl e \<Rightarrow> ErrorResponse ''Failed to process payment intent'' 500
                  | Inr f \<Rightarrow>
                      SuccessResponse
                        \<lparr> originalInput = u, parsedIntent = intent result,
                          data_fraudAnalysis = fraudAnalysis result, formattedPayment = f,
                          processingTimestamp = toISOString t2 \<rparr>))"
    by (rule POST_pipeline [OF rd s ne])
qed

theorem post_validation_amended_witness:
  "POST sample_JSON_parse (Some (JObj [])) (Content (Some (lit john_text))) (Content None) sample_now sample_now =
     ErrorResponse ''Invalid payment instruction'' 400
   \<and> POST sample_JSON_parse (Some (JObj [(''userInput'', JStr ''Pay John'')]))
       (Content (Some (lit john_text))) (Content None) sample_now sample_now =
     SuccessResponse
       \<lparr> originalInput = ''Pay John'', parsedIntent = john_intent,
         data_fraudAnalysis =
           \<lparr> riskLevel = JStr ''medium'', flags = JArr [JStr ''Analysis unavailable''],
             score = JNum 50 \<rparr>,
         formattedPayment = SEPA (formatSEPA sample_now john_intent),
         processingTimestamp = ''2026-11-01T09:05:07.042Z'' \<rparr>"
proof -
  let ?b0 = "JObj []"
  let ?b1 = "JObj [(''userInput'', JStr ''Pay John'')]"
  have rd0: "\<not> unreadable ?b0" and rd1: "\<not> unreadable ?b1"
    by (simp_all add: unreadable_def)
  have u0: "\<forall>u. the_prop ?b0 ''userInput'' = JStr u \<longrightarrow> u = []"
    by (simp add: the_prop_def)
  have u1: "the_prop ?b1 ''userInput'' = JStr ''Pay John''"
    by (simp add: the_prop_def)
  have pr: "processPaymentIntent sample_JSON_parse (Content (Some (lit john_text))) (Content None) ''Pay John'' =
      Inr \<lparr> intent = john_intent,
            fraudAnalysis = \<lparr> riskLevel = JStr ''medium'',
              flags = JArr [JStr ''Analysis unavailable''], score = JNum 50 \<rparr> \<rparr>"
    by (rule process_scoring_returned [OF extract_john]) (simp add: analyze_no_content)
  have fm: "format_payment sample_now john_intent = Inr (SEPA (formatSEPA sample_now john_intent))"
    by (rule format_payment_SEPA) (simp add: john_intent_def)
  have a: "POST sample_JSON_parse (Some ?b0) (Content (Some (lit john_text))) (Content None) sample_now sample_now =
     ErrorResponse ''Invalid payment instruction'' 400"
    using post_validation_amended [OF rd0, of sample_JSON_parse "Content (Some (lit john_text))"
        "Content None" sample_now sample_now] u0
    by blast
  have b: "POST sample_JSON_parse (Some ?b1) (Content (Some (lit john_text))) (Content None) sample_now sample_now =
     (case processPaymentIntent sample_JSON_parse (Content (Some (lit john_text))) (Content None) ''Pay John'' of
               Inl e \<Rightarrow> ErrorResponse ''Failed to process payment intent'' 500
             | Inr result \<Rightarrow>
                 (case format_payment sample_now (intent result) of
                    Inl e \<Rightarrow> ErrorResponse ''Failed to process payment intent'' 500
                  | Inr f \<Rightarrow>
                      SuccessResponse
                        \<lparr> originalInput = ''Pay John'', parsedIntent = intent result,
                          data_fraudAnalysis = fraudAnalysis result, formattedPayment = f,
                          processingTimestamp = toISOString sample_now \<rparr>))"
    using post_validation_amended [OF rd1, of sample_JSON_parse "Content (Some (lit john_text))"
        "Content None" sample_now sample_now] u1
    by blast
  from a b show ?thesis
    by (simp add: pr fm toISOString_sample)
qed

end
